theory Spec2Isabelle
  imports Complex_Main "HOL-Library.Word" "HOL-Library.Multiset"
begin

section \<open>Data model\<close>

text \<open>
  The game server keeps its state in \<^verbatim>\<open>model::Game\<close> (maps, dogs, players and
  three position indices) and in \<^verbatim>\<open>app::Application\<close> (per-player metadata and
  the function-local static counters). C++ \<^verbatim>\<open>double\<close> values are modelled by
  \<^typ>\<open>real\<close>. Arithmetic on them is taken to be exact in the geometry and in the
  comparisons of times; on the way of a play time to the records table, where an integer
  is cut out of a double, every operation rounds as binary64 does (see \<open>to_double\<close>).
  \<^verbatim>\<open>uint32_t\<close> identifiers are 32-bit words, and so are the \<^verbatim>\<open>int\<close> loot
  ids, whose counter C++ leaves undefined once it overflows; readings of
  \<^verbatim>\<open>steady_clock\<close> are integers counting nanoseconds.
\<close>

type_synonym map_id = string
type_synonym token = string
type_synonym dog_id = "32 word"
type_synonym player_id = "32 word"
type_synonym loot_id = "32 word"
type_synonym time_point = int

record Position =
  pos_x :: real
  pos_y :: real

record Velocity =
  vx :: real
  vy :: real

datatype Direction = North | South | West | East

record Point =
  pt_x :: int
  pt_y :: int

datatype RoadKind = HORIZONTAL | VERTICAL

record Road =
  road_kind :: RoadKind
  road_start :: Point
  road_end :: int

record Office =
  office_id :: string
  office_position :: Point
  office_offset :: Point

record LootItem =
  loot_item_id :: loot_id
  loot_type :: int
  loot_value :: real
  loot_position :: Position

record BagItem =
  bag_item_id :: loot_id
  bag_item_type :: int
  bag_item_value :: real

record Dog =
  dog_ident :: dog_id
  dog_name :: string
  dog_map_id :: map_id
  dog_position :: Position
  dog_velocity :: Velocity
  dog_direction :: Direction
  bag :: "BagItem list"
  bag_capacity :: nat
  score :: int

record Player =
  player_ident :: player_id
  player_name :: string
  player_dog_id :: dog_id
  player_map_id :: map_id
  player_token :: token

record GameMap =
  map_ident :: map_id
  map_name :: string
  roads :: "Road list"
  offices :: "Office list"
  loot_items :: "LootItem list"
  dog_speed :: real
  map_bag_capacity :: nat

record Game =
  maps :: "GameMap list"
  dogs :: "Dog list"
  players :: "Player list"
  token_to_player_index :: "token \<rightharpoonup> nat"
  player_id_to_index :: "player_id \<rightharpoonup> nat"
  dog_id_to_index :: "dog_id \<rightharpoonup> nat"

datatype EventType = ITEM_PICKUP | OFFICE_RETURN | ITEM_SKIP

record CollisionEvent =
  event_type :: EventType
  timestamp :: real
  event_dog_id :: dog_id
  item_id :: "loot_id option"
  item_type :: "int option"

record PlayerMetadata =
  join_time :: time_point
  idle_start_time :: "time_point option"
  is_retired :: bool

record MovementResult =
  new_position :: Position
  collision_occurred :: bool

text \<open>
  The application state. \<open>next_loot_id\<close>, \<open>next_dog_id\<close> and \<open>next_player_id\<close> are
  the function-local statics of \<^verbatim>\<open>GenerateLootItems\<close> and \<^verbatim>\<open>JoinGame\<close>.
  \<open>retirement_callback_set\<close> tells whether \<^verbatim>\<open>retirement_callback_\<close> holds a
  function; \<open>retired_records\<close> lists the calls made to it, oldest first.
\<close>

record Application =
  game :: Game
  randomize_spawn_points :: bool
  dog_retirement_time_seconds :: real
  player_metadata :: "player_id \<rightharpoonup> PlayerMetadata"
  retirement_callback_set :: bool
  retired_records :: "(string \<times> int \<times> real) list"
  next_loot_id :: loot_id
  next_dog_id :: dog_id
  next_player_id :: player_id

section \<open>Rounding to double precision\<close>

text \<open>
  An operation on doubles yields the double nearest to its exact result, the one with the
  even significand when two are equally near (IEEE 754 binary64, round to nearest even). A
  double is a multiple of the spacing of its binade: \<open>pow2 (e - 52)\<close> for a number
  whose magnitude is at least \<open>pow2 e\<close> and below \<open>pow2 (e + 1)\<close>, and
  \<open>pow2 (- 1074)\<close> for every number below \<open>pow2 (- 1022)\<close>. \<open>to_double\<close> rounds
  a real to that grid. A result beyond the largest double, which C++ turns into an
  infinity, is left as the finite number it is; the only cast applied to such a result
  rejects both.
\<close>

definition pow2 :: "int \<Rightarrow> real" where
  "pow2 e = (if 0 \<le> e then 2 ^ nat e else 1 / 2 ^ nat (- e))"

definition round_to_even :: "real \<Rightarrow> int" where
  "round_to_even y =
     (let f = \<lfloor>y\<rfloor>
      in if y - real_of_int f < 1 / 2 then f
         else if 1 / 2 < y - real_of_int f then f + 1
         else if even f then f else f + 1)"

definition binade :: "real \<Rightarrow> int" where
  "binade x = max \<lfloor>log 2 \<bar>x\<bar>\<rfloor> (- 1022)"

definition to_double :: "real \<Rightarrow> real" where
  "to_double x =
     (if x = 0 then 0
      else real_of_int (round_to_even (x / pow2 (binade x - 52))) * pow2 (binade x - 52))"

section \<open>Collision time along a motion segment\<close>

definition hypot :: "real \<Rightarrow> real \<Rightarrow> real" where
  "hypot x y = sqrt (x * x + y * y)"

text \<open>\<^verbatim>\<open>Application::FindCollisionTime\<close>, branch by branch.\<close>

definition FindCollisionTime ::
  "Position \<Rightarrow> Position \<Rightarrow> Position \<Rightarrow> real \<Rightarrow> real option" where
  "FindCollisionTime start_pos end_pos target_pos collision_distance =
     (let dx = pos_x end_pos - pos_x start_pos;
          dy = pos_y end_pos - pos_y start_pos;
          path_length = hypot dx dy
      in if path_length < 1 / 10 ^ 9 then
           (let current_distance =
                  hypot (pos_x target_pos - pos_x start_pos) (pos_y target_pos - pos_y start_pos)
            in if current_distance \<le> collision_distance then Some 0 else None)
         else
           (let dir_x = dx / path_length;
                dir_y = dy / path_length;
                to_target_x = pos_x target_pos - pos_x start_pos;
                to_target_y = pos_y target_pos - pos_y start_pos;
                projection = to_target_x * dir_x + to_target_y * dir_y;
                closest =
                  (if projection \<le> 0 then (pos_x start_pos, pos_y start_pos)
                   else if projection \<ge> path_length then (pos_x end_pos, pos_y end_pos)
                   else (pos_x start_pos + dir_x * projection,
                         pos_y start_pos + dir_y * projection));
                distance_to_path =
                  hypot (pos_x target_pos - fst closest) (pos_y target_pos - snd closest)
            in if distance_to_path > collision_distance then None
               else
                 (let distance_to_collision =
                        projection - sqrt (collision_distance * collision_distance -
                                           distance_to_path * distance_to_path)
                  in if distance_to_collision < 0 \<or> distance_to_collision > path_length
                     then None
                     else Some (distance_to_collision / path_length))))"

section \<open>Lookups in the game\<close>

text \<open>
  Modelled from the spec: \<^verbatim>\<open>Game::FindMap\<close> is declared in model.h, which is not
  among the sources. It resolves a map id to the map of the sequence that carries it
  (the first one, should two maps share an id).
\<close>

definition find_map :: "GameMap list \<Rightarrow> map_id \<Rightarrow> GameMap option" where
  "find_map ms mid = find (\<lambda>m. map_ident m = mid) ms"

definition FindMap :: "Application \<Rightarrow> map_id \<Rightarrow> GameMap option" where
  "FindMap app mid = find_map (maps (game app)) mid"

text \<open>
  The map behind the pointer that \<^verbatim>\<open>FindMap\<close> returned is mutated in place;
  \<open>store_map\<close> writes the mutated map back to the position it was found at.
\<close>

fun store_map :: "map_id \<Rightarrow> GameMap \<Rightarrow> GameMap list \<Rightarrow> GameMap list" where
  "store_map mid m' [] = []"
| "store_map mid m' (m # ms) =
     (if map_ident m = mid then m' # ms else m # store_map mid m' ms)"

text \<open>
  \<^verbatim>\<open>Application::FindDog\<close> and \<^verbatim>\<open>Application::FindPlayerByToken\<close> return a
  pointer to an element of the sequence; the model returns the element's position.
\<close>

definition FindDog :: "Application \<Rightarrow> dog_id \<Rightarrow> nat option" where
  "FindDog app did =
     (case dog_id_to_index (game app) did of
        None \<Rightarrow> None
      | Some i \<Rightarrow> if i \<ge> length (dogs (game app)) then None else Some i)"

definition FindPlayerByToken :: "Application \<Rightarrow> token \<Rightarrow> nat option" where
  "FindPlayerByToken app auth_token =
     (case token_to_player_index (game app) auth_token of
        None \<Rightarrow> None
      | Some i \<Rightarrow> if i \<ge> length (players (game app)) then None else Some i)"

text \<open>
  Modelled from the spec: \<^verbatim>\<open>Game::FindPlayer\<close> (model.h) resolves a player id
  through the player-id index, the way \<^verbatim>\<open>FindDog\<close> resolves a dog id.
\<close>

definition FindPlayer :: "Application \<Rightarrow> player_id \<Rightarrow> nat option" where
  "FindPlayer app pid =
     (case player_id_to_index (game app) pid of
        None \<Rightarrow> None
      | Some i \<Rightarrow> if i \<ge> length (players (game app)) then None else Some i)"

definition GetDogSpeedForMap :: "Application \<Rightarrow> map_id \<Rightarrow> real" where
  "GetDogSpeedForMap app mid =
     (case FindMap app mid of None \<Rightarrow> 1 | Some m \<Rightarrow> dog_speed m)"

section \<open>Dogs, bags and loot\<close>

text \<open>
  Modelled from the spec: the members of \<^verbatim>\<open>model::Dog\<close> and \<^verbatim>\<open>model::Map\<close>
  that the application calls (model.h is not among the sources). A bag is full when it
  holds as many items as its capacity, which is a count (a negative configured capacity
  is outside the model); an item put in the bag keeps its id, type and value. The value of
  a loot item is a double (\<^verbatim>\<open>GenerateLootItems\<close> passes 10.0, the loader what
  \<^verbatim>\<open>as_double()\<close> reads from the configuration) and the score is an integer (it
  reaches the retirement callback and the records table as an \<^verbatim>\<open>int\<close>), so
  \<^verbatim>\<open>AddScore\<close> has to turn the value into an integer: it does so the way C++
  converts a double to \<^verbatim>\<open>int\<close>, by dropping the fraction. Values and scores
  beyond the range of \<^verbatim>\<open>int\<close>, where C++ leaves the conversion and the addition
  undefined, are outside the model.
\<close>

definition static_cast_int :: "real \<Rightarrow> int" where
  "static_cast_int x = (if 0 \<le> x then \<lfloor>x\<rfloor> else \<lceil>x\<rceil>)"

definition IsBagFull :: "Dog \<Rightarrow> bool" where
  "IsBagFull d = (length (bag d) \<ge> bag_capacity d)"

definition AddToBag :: "Dog \<Rightarrow> LootItem \<Rightarrow> Dog" where
  "AddToBag d item =
     d\<lparr>bag := bag d @ [\<lparr>bag_item_id = loot_item_id item,
                         bag_item_type = loot_type item,
                         bag_item_value = loot_value item\<rparr>]\<rparr>"

definition AddScore :: "Dog \<Rightarrow> real \<Rightarrow> Dog" where
  "AddScore d v = d\<lparr>score := score d + static_cast_int v\<rparr>"

definition ClearBag :: "Dog \<Rightarrow> Dog" where
  "ClearBag d = d\<lparr>bag := []\<rparr>"

definition Map_FindLootItem :: "GameMap \<Rightarrow> loot_id \<Rightarrow> LootItem option" where
  "Map_FindLootItem m lid = find (\<lambda>l. loot_item_id l = lid) (loot_items m)"

definition RemoveLootItem :: "GameMap \<Rightarrow> loot_id \<Rightarrow> GameMap" where
  "RemoveLootItem m lid = m\<lparr>loot_items := filter (\<lambda>l. loot_item_id l \<noteq> lid) (loot_items m)\<rparr>"

definition AddLootItem :: "GameMap \<Rightarrow> LootItem \<Rightarrow> GameMap" where
  "AddLootItem m item = m\<lparr>loot_items := loot_items m @ [item]\<rparr>"

section \<open>Collision events of one dog\<close>

definition pickup_event :: "Dog \<Rightarrow> LootItem \<Rightarrow> real \<Rightarrow> CollisionEvent" where
  "pickup_event dog loot t =
     \<lparr>event_type = ITEM_PICKUP, timestamp = t, event_dog_id = dog_ident dog,
      item_id = Some (loot_item_id loot), item_type = Some (loot_type loot)\<rparr>"

definition return_event :: "Dog \<Rightarrow> real \<Rightarrow> CollisionEvent" where
  "return_event dog t =
     \<lparr>event_type = OFFICE_RETURN, timestamp = t, event_dog_id = dog_ident dog,
      item_id = None, item_type = None\<rparr>"

text \<open>The first loop of \<^verbatim>\<open>ProcessDogCollisions\<close>: radius 0.3 around every loot item.\<close>

fun push_loot_events ::
  "Dog \<Rightarrow> Position \<Rightarrow> Position \<Rightarrow> LootItem list \<Rightarrow> CollisionEvent list \<Rightarrow> CollisionEvent list"
where
  "push_loot_events dog start_pos end_pos [] events = events"
| "push_loot_events dog start_pos end_pos (loot # rest) events =
     push_loot_events dog start_pos end_pos rest
       (case FindCollisionTime start_pos end_pos (loot_position loot) (3 / 10) of
          Some t \<Rightarrow> events @ [pickup_event dog loot t]
        | None \<Rightarrow> events)"

text \<open>The second loop: radius 0.55 around every office.\<close>

definition office_pos :: "Office \<Rightarrow> Position" where
  "office_pos office =
     \<lparr>pos_x = real_of_int (pt_x (office_position office)),
      pos_y = real_of_int (pt_y (office_position office))\<rparr>"

fun push_office_events ::
  "Dog \<Rightarrow> Position \<Rightarrow> Position \<Rightarrow> Office list \<Rightarrow> CollisionEvent list \<Rightarrow> CollisionEvent list"
where
  "push_office_events dog start_pos end_pos [] events = events"
| "push_office_events dog start_pos end_pos (office # rest) events =
     push_office_events dog start_pos end_pos rest
       (case FindCollisionTime start_pos end_pos (office_pos office) (55 / 100) of
          Some t \<Rightarrow> events @ [return_event dog t]
        | None \<Rightarrow> events)"

definition collect_events :: "Dog \<Rightarrow> GameMap \<Rightarrow> Position \<Rightarrow> Position \<Rightarrow> CollisionEvent list" where
  "collect_events dog m start_pos end_pos =
     push_office_events dog start_pos end_pos (offices m)
       (push_loot_events dog start_pos end_pos (loot_items m) [])"

text \<open>
  The body of the loop over the sorted events. A pickup event always carries an item id
  (see \<open>pickup_event\<close>), so \<^verbatim>\<open>event.item_id.value()\<close> cannot throw on the events
  the function builds; the model leaves dog and map alone on an event without one.
\<close>

definition apply_event :: "CollisionEvent \<Rightarrow> Dog \<Rightarrow> GameMap \<Rightarrow> Dog \<times> GameMap" where
  "apply_event event dog m =
     (if event_type event = ITEM_PICKUP then
        (if \<not> IsBagFull dog then
           (case item_id event of
              None \<Rightarrow> (dog, m)
            | Some lid \<Rightarrow>
                (case Map_FindLootItem m lid of
                   None \<Rightarrow> (dog, m)
                 | Some item \<Rightarrow> (AddToBag dog item, RemoveLootItem m (loot_item_id item))))
         else (dog, m))
      else if event_type event = OFFICE_RETURN then
        (ClearBag (fold (\<lambda>bag_item d. AddScore d (bag_item_value bag_item)) (bag dog) dog), m)
      else (dog, m))"

fun apply_events :: "CollisionEvent list \<Rightarrow> Dog \<Rightarrow> GameMap \<Rightarrow> Dog \<times> GameMap" where
  "apply_events [] dog m = (dog, m)"
| "apply_events (event # rest) dog m =
     (case apply_event event dog m of (dog', m') \<Rightarrow> apply_events rest dog' m')"

text \<open>
  \<^verbatim>\<open>std::sort\<close> with the comparator \<^verbatim>\<open>a.timestamp < b.timestamp\<close>. The C++
  standard fixes its result only up to the order of equivalent elements: the result is a
  rearrangement of the input in which no element is followed by one that compares less.
  The sorting function is therefore a parameter \<open>std_sort\<close> of the model, and
  \<open>std_sort_contract\<close> is what the standard promises of it.
\<close>

definition std_sort_contract :: "(CollisionEvent list \<Rightarrow> CollisionEvent list) \<Rightarrow> bool" where
  "std_sort_contract std_sort =
     (\<forall>events. mset (std_sort events) = mset events \<and>
               sorted_wrt (\<lambda>a b. \<not> timestamp b < timestamp a) (std_sort events))"

definition ProcessDogCollisions ::
  "(CollisionEvent list \<Rightarrow> CollisionEvent list) \<Rightarrow> GameMap list \<Rightarrow> Dog \<Rightarrow> Position \<Rightarrow> Position
     \<Rightarrow> Dog \<times> GameMap list" where
  "ProcessDogCollisions std_sort ms dog start_pos end_pos =
     (case find_map ms (dog_map_id dog) of
        None \<Rightarrow> (dog, ms)
      | Some m \<Rightarrow>
          (case apply_events (std_sort (collect_events dog m start_pos end_pos)) dog m of
             (dog', m') \<Rightarrow> (dog', store_map (dog_map_id dog) m' ms)))"

section \<open>Motion and the per-tick update\<close>

text \<open>
  \<^verbatim>\<open>CollisionDetector::CalculateMovement\<close> is declared in collision_detector.h,
  which is not among the sources; it is the parameter \<open>calc\<close>, applied to the id of the
  map the detector was built for. A detector exists for every map of the game
  (\<^verbatim>\<open>InitializeCollisionDetectors\<close>), so the lookup in \<^verbatim>\<open>collision_detectors_\<close>
  succeeds exactly when the map id resolves.
\<close>

type_synonym movement = "map_id \<Rightarrow> Position \<Rightarrow> Velocity \<Rightarrow> real \<Rightarrow> MovementResult"

definition MoveDog :: "movement \<Rightarrow> GameMap list \<Rightarrow> Dog \<Rightarrow> real \<Rightarrow> Dog" where
  "MoveDog calc ms dog delta_time =
     (if vx (dog_velocity dog) = 0 \<and> vy (dog_velocity dog) = 0 then dog
      else if find_map ms (dog_map_id dog) = None then dog
      else
        (let movement_result = calc (dog_map_id dog) (dog_position dog) (dog_velocity dog) delta_time;
             dog1 = dog\<lparr>dog_position := new_position movement_result\<rparr>
         in if collision_occurred movement_result
            then dog1\<lparr>dog_velocity := \<lparr>vx = 0, vy = 0\<rparr>\<rparr>
            else dog1))"

fun UpdateGameState_loop ::
  "movement \<Rightarrow> (CollisionEvent list \<Rightarrow> CollisionEvent list) \<Rightarrow> real \<Rightarrow> Dog list \<Rightarrow> GameMap list
     \<Rightarrow> Dog list \<times> GameMap list" where
  "UpdateGameState_loop calc std_sort delta_time_seconds [] ms = ([], ms)"
| "UpdateGameState_loop calc std_sort delta_time_seconds (dog # rest) ms =
     (let start_pos = dog_position dog;
          dog1 = MoveDog calc ms dog delta_time_seconds;
          end_pos = dog_position dog1
      in case ProcessDogCollisions std_sort ms dog1 start_pos end_pos of
           (dog2, ms') \<Rightarrow>
             (case UpdateGameState_loop calc std_sort delta_time_seconds rest ms' of
                (rest', ms'') \<Rightarrow> (dog2 # rest', ms'')))"

definition UpdateGameState ::
  "movement \<Rightarrow> (CollisionEvent list \<Rightarrow> CollisionEvent list) \<Rightarrow> real \<Rightarrow> Application \<Rightarrow> Application"
where
  "UpdateGameState calc std_sort delta_time_seconds app =
     (case UpdateGameState_loop calc std_sort delta_time_seconds
             (dogs (game app)) (maps (game app)) of
        (ds, ms) \<Rightarrow> app\<lparr>game := (game app)\<lparr>dogs := ds, maps := ms\<rparr>\<rparr>)"

section \<open>Loot generation\<close>

text \<open>
  The item built in round \<open>i\<close> of the inner loop of \<^verbatim>\<open>GenerateLootItems\<close>, with
  the id drawn from the counter.
\<close>

definition generated_item :: "nat \<Rightarrow> loot_id \<Rightarrow> LootItem" where
  "generated_item i lid =
     \<lparr>loot_item_id = lid, loot_type = 1, loot_value = 10,
      loot_position = \<lparr>pos_x = 10 + real i * 5, pos_y = 10\<rparr>\<rparr>"

definition spawn_five :: "GameMap \<Rightarrow> loot_id \<Rightarrow> GameMap \<times> loot_id" where
  "spawn_five m next_id =
     fold (\<lambda>i (m', n). (AddLootItem m' (generated_item i n), n + 1)) [0..<5] (m, next_id)"

fun GenerateLootItems_loop :: "GameMap list \<Rightarrow> loot_id \<Rightarrow> GameMap list \<times> loot_id" where
  "GenerateLootItems_loop [] next_id = ([], next_id)"
| "GenerateLootItems_loop (m # ms) next_id =
     (if loot_items m = [] then
        (case spawn_five m next_id of
           (m', n') \<Rightarrow>
             (case GenerateLootItems_loop ms n' of (ms', n'') \<Rightarrow> (m' # ms', n'')))
      else
        (case GenerateLootItems_loop ms next_id of (ms', n'') \<Rightarrow> (m # ms', n'')))"

definition GenerateLootItems :: "Application \<Rightarrow> Application" where
  "GenerateLootItems app =
     (case GenerateLootItems_loop (maps (game app)) (next_loot_id app) of
        (ms, n) \<Rightarrow> app\<lparr>game := (game app)\<lparr>maps := ms\<rparr>, next_loot_id := n\<rparr>)"

section \<open>Joining, listing and steering\<close>

text \<open>
  Modelled from the spec: the constructor of \<^verbatim>\<open>model::Dog\<close> and
  \<^verbatim>\<open>Map::GetDefaultDogPosition\<close> (model.h is not among the sources). A new dog
  stands still with an empty bag and no score (its facing is taken to be North, the value
  \<^verbatim>\<open>SetPlayerAction\<close> starts from); the default spawn point is the start of the
  map's first road.
\<close>

definition new_dog :: "dog_id \<Rightarrow> string \<Rightarrow> map_id \<Rightarrow> Position \<Rightarrow> Dog" where
  "new_dog did user_name mid spawn_position =
     \<lparr>dog_ident = did, dog_name = user_name, dog_map_id = mid,
      dog_position = spawn_position, dog_velocity = \<lparr>vx = 0, vy = 0\<rparr>,
      dog_direction = North, bag = [], bag_capacity = 0, score = 0\<rparr>"

definition GetDefaultDogPosition :: "GameMap \<Rightarrow> Position" where
  "GetDefaultDogPosition m =
     (case roads m of
        [] \<Rightarrow> \<lparr>pos_x = 0, pos_y = 0\<rparr>
      | r # _ \<Rightarrow> \<lparr>pos_x = real_of_int (pt_x (road_start r)),
                  pos_y = real_of_int (pt_y (road_start r))\<rparr>)"

text \<open>
  \<^verbatim>\<open>Application::JoinGame\<close>. The token that \<^verbatim>\<open>GenerateToken\<close> draws, the point
  that \<^verbatim>\<open>GetRandomDogPosition\<close> samples and the clock reading are inputs.
\<close>

definition JoinGame ::
  "string \<Rightarrow> map_id \<Rightarrow> token \<Rightarrow> Position \<Rightarrow> time_point \<Rightarrow> Application
     \<Rightarrow> (token \<times> player_id) option \<times> Application" where
  "JoinGame user_name mid new_token random_position now app =
     (case FindMap app mid of
        None \<Rightarrow> (None, app)
      | Some m \<Rightarrow>
          if user_name = [] then (None, app)
          else
            (let did = next_dog_id app;
                 spawn_position =
                   (if randomize_spawn_points app then random_position
                    else GetDefaultDogPosition m);
                 dog = (new_dog did user_name mid spawn_position)
                         \<lparr>bag_capacity := map_bag_capacity m\<rparr>;
                 g1 = (game app)\<lparr>dogs := dogs (game app) @ [dog]\<rparr>;
                 pid = next_player_id app;
                 player = \<lparr>player_ident = pid, player_name = user_name, player_dog_id = did,
                           player_map_id = mid, player_token = new_token\<rparr>;
                 g2 = g1\<lparr>players := players g1 @ [player]\<rparr>;
                 g3 = g2\<lparr>token_to_player_index :=
                           (token_to_player_index g2)(new_token \<mapsto> length (players g2) - 1),
                         player_id_to_index :=
                           (player_id_to_index g2)(pid \<mapsto> length (players g2) - 1),
                         dog_id_to_index :=
                           (dog_id_to_index g2)(did \<mapsto> length (dogs g2) - 1)\<rparr>;
                 metadata = \<lparr>join_time = now, idle_start_time = None, is_retired = False\<rparr>
             in (Some (new_token, pid),
                 app\<lparr>game := g3,
                     next_dog_id := did + 1,
                     next_player_id := pid + 1,
                     player_metadata := (player_metadata app)(pid \<mapsto> metadata)\<rparr>)))"

text \<open>
  \<^verbatim>\<open>GetPlayers\<close> and \<^verbatim>\<open>GetGameState\<close> return pointers into the players
  sequence; the model returns the players pointed to, in the order pushed.
\<close>

definition GetPlayers :: "token \<Rightarrow> Application \<Rightarrow> Player list" where
  "GetPlayers auth_token app =
     (case FindPlayerByToken app auth_token of
        None \<Rightarrow> []
      | Some i \<Rightarrow>
          (let player = players (game app) ! i
           in fold (\<lambda>p players_on_map.
                      if player_map_id p = player_map_id player
                      then players_on_map @ [p] else players_on_map)
                (players (game app)) []))"

definition GetGameState :: "token \<Rightarrow> Application \<Rightarrow> Player list" where
  "GetGameState auth_token app =
     (case FindPlayerByToken app auth_token of
        None \<Rightarrow> []
      | Some i \<Rightarrow>
          (let player = players (game app) ! i
           in fold (\<lambda>p players_on_map.
                      if player_map_id p = player_map_id player
                      then players_on_map @ [p] else players_on_map)
                (players (game app)) []))"

text \<open>The chain of comparisons on \<open>move\<close> in \<^verbatim>\<open>SetPlayerAction\<close>.\<close>

definition decode_move :: "string \<Rightarrow> real \<Rightarrow> Direction \<Rightarrow> (Velocity \<times> Direction) option" where
  "decode_move move speed facing =
     (if move = ''L'' then Some (\<lparr>vx = - speed, vy = 0\<rparr>, West)
      else if move = ''R'' then Some (\<lparr>vx = speed, vy = 0\<rparr>, East)
      else if move = ''U'' then Some (\<lparr>vx = 0, vy = - speed\<rparr>, North)
      else if move = ''D'' then Some (\<lparr>vx = 0, vy = speed\<rparr>, South)
      else if move = [] then Some (\<lparr>vx = 0, vy = 0\<rparr>, facing)
      else None)"

text \<open>The update of the player's metadata at the end of \<^verbatim>\<open>SetPlayerAction\<close>.\<close>

definition touch_idle ::
  "player_id \<Rightarrow> Velocity \<Rightarrow> time_point \<Rightarrow> (player_id \<rightharpoonup> PlayerMetadata)
     \<Rightarrow> (player_id \<rightharpoonup> PlayerMetadata)" where
  "touch_idle pid new_velocity now meta =
     (case meta pid of
        None \<Rightarrow> meta
      | Some md \<Rightarrow>
          if \<not> is_retired md then
            (if vx new_velocity = 0 \<and> vy new_velocity = 0 then
               (if idle_start_time md = None
                then meta(pid \<mapsto> md\<lparr>idle_start_time := Some now\<rparr>)
                else meta)
             else meta(pid \<mapsto> md\<lparr>idle_start_time := None\<rparr>))
          else meta)"

definition SetPlayerAction ::
  "Player \<Rightarrow> string \<Rightarrow> time_point \<Rightarrow> Application \<Rightarrow> bool \<times> Application" where
  "SetPlayerAction player move now app =
     (case FindDog app (player_dog_id player) of
        None \<Rightarrow> (False, app)
      | Some d_at \<Rightarrow>
          (case FindMap app (player_map_id player) of
             None \<Rightarrow> (False, app)
           | Some m \<Rightarrow>
               (let speed = GetDogSpeedForMap app (player_map_id player);
                    dog = dogs (game app) ! d_at
                in case decode_move move speed (dog_direction dog) of
                     None \<Rightarrow> (False, app)
                   | Some (new_velocity, new_direction) \<Rightarrow>
                       (True,
                        app\<lparr>game := (game app)\<lparr>dogs := (dogs (game app))
                                 [d_at := dog\<lparr>dog_velocity := new_velocity,
                                            dog_direction := new_direction\<rparr>]\<rparr>,
                            player_metadata :=
                              touch_idle (player_ident player) new_velocity now
                                (player_metadata app)\<rparr>))))"

section \<open>Retirement\<close>

text \<open>
  \<^verbatim>\<open>duration_cast<milliseconds>\<close> of a difference of clock readings: division
  by a million that truncates toward zero. In \<^verbatim>\<open>RetirePlayer\<close> the count of
  milliseconds is converted to a double and divided by 1000.0; both steps round.
\<close>

definition duration_cast_ms :: "int \<Rightarrow> int" where
  "duration_cast_ms d = (if 0 \<le> d then d div 1000000 else - ((- d) div 1000000))"

definition RetirePlayer :: "player_id \<Rightarrow> time_point \<Rightarrow> Application \<Rightarrow> Application" where
  "RetirePlayer pid now app =
     (case player_metadata app pid of
        None \<Rightarrow> app
      | Some md \<Rightarrow>
          if is_retired md then app
          else
            (case FindPlayer app pid of
               None \<Rightarrow> app
             | Some p_at \<Rightarrow>
                 (let player = players (game app) ! p_at
                  in case FindDog app (player_dog_id player) of
                       None \<Rightarrow> app
                     | Some d_at \<Rightarrow>
                         (let dog = dogs (game app) ! d_at;
                              play_duration = duration_cast_ms (now - join_time md);
                              play_time_seconds =
                                to_double (to_double (real_of_int play_duration) / 1000);
                              g = game app
                          in app\<lparr>retired_records :=
                                   (if retirement_callback_set app
                                    then retired_records app @
                                           [(player_name player, score dog, play_time_seconds)]
                                    else retired_records app),
                                 player_metadata :=
                                   (player_metadata app)(pid \<mapsto> md\<lparr>is_retired := True\<rparr>),
                                 game :=
                                   g\<lparr>token_to_player_index :=
                                        (token_to_player_index g)(player_token player := None),
                                      player_id_to_index := (player_id_to_index g)(pid := None),
                                      dog_id_to_index :=
                                        (dog_id_to_index g)(dog_ident dog := None),
                                      players := filter (\<lambda>p. player_ident p \<noteq> pid) (players g),
                                      dogs := filter (\<lambda>d. dog_ident d \<noteq> dog_ident dog)
                                                (dogs g)\<rparr>\<rparr>))))"

text \<open>
  The first loop of \<^verbatim>\<open>CheckPlayerRetirement\<close> walks the hash table
  \<^verbatim>\<open>player_metadata_\<close>; the order in which it meets the keys is not fixed by the
  language, so it is the input \<open>order\<close>. The loop updates idle-start times and queues
  the players to retire.
\<close>

fun CheckPlayerRetirement_scan ::
  "time_point \<Rightarrow> player_id list \<Rightarrow> Application \<Rightarrow> player_id list
     \<Rightarrow> Application \<times> player_id list" where
  "CheckPlayerRetirement_scan now [] app players_to_retire = (app, players_to_retire)"
| "CheckPlayerRetirement_scan now (pid # rest) app players_to_retire =
     (case player_metadata app pid of
        None \<Rightarrow> CheckPlayerRetirement_scan now rest app players_to_retire
      | Some md \<Rightarrow>
          if is_retired md then CheckPlayerRetirement_scan now rest app players_to_retire
          else
            (case FindPlayer app pid of
               None \<Rightarrow> CheckPlayerRetirement_scan now rest app players_to_retire
             | Some p_at \<Rightarrow>
                 (case FindDog app (player_dog_id (players (game app) ! p_at)) of
                    None \<Rightarrow> CheckPlayerRetirement_scan now rest app players_to_retire
                  | Some d_at \<Rightarrow>
                      (let dog = dogs (game app) ! d_at
                       in if vx (dog_velocity dog) = 0 \<and> vy (dog_velocity dog) = 0 then
                            (case idle_start_time md of
                               None \<Rightarrow>
                                 CheckPlayerRetirement_scan now rest
                                   (app\<lparr>player_metadata :=
                                          (player_metadata app)
                                            (pid \<mapsto> md\<lparr>idle_start_time := Some now\<rparr>)\<rparr>)
                                   players_to_retire
                             | Some idle_start \<Rightarrow>
                                 (let idle_duration = duration_cast_ms (now - idle_start);
                                      idle_seconds = real_of_int idle_duration / 1000
                                  in if idle_seconds \<ge> dog_retirement_time_seconds app
                                     then CheckPlayerRetirement_scan now rest app
                                            (players_to_retire @ [pid])
                                     else CheckPlayerRetirement_scan now rest app
                                            players_to_retire))
                          else
                            CheckPlayerRetirement_scan now rest
                              (app\<lparr>player_metadata :=
                                     (player_metadata app)
                                       (pid \<mapsto> md\<lparr>idle_start_time := None\<rparr>)\<rparr>)
                              players_to_retire))))"

text \<open>
  \<open>retire_now pid\<close> is the clock reading taken inside the call of
  \<^verbatim>\<open>RetirePlayer\<close> for \<open>pid\<close>.
\<close>

definition CheckPlayerRetirement ::
  "time_point \<Rightarrow> player_id list \<Rightarrow> (player_id \<Rightarrow> time_point) \<Rightarrow> Application \<Rightarrow> Application"
where
  "CheckPlayerRetirement now order retire_now app =
     (case CheckPlayerRetirement_scan now order app [] of
        (app', players_to_retire) \<Rightarrow>
          fold (\<lambda>pid a. RetirePlayer pid (retire_now pid) a) players_to_retire app')"

section \<open>The tick\<close>

definition Tick ::
  "movement \<Rightarrow> (CollisionEvent list \<Rightarrow> CollisionEvent list) \<Rightarrow> int \<Rightarrow> time_point
     \<Rightarrow> player_id list \<Rightarrow> (player_id \<Rightarrow> time_point) \<Rightarrow> Application \<Rightarrow> Application" where
  "Tick calc std_sort delta now order retire_now app =
     (let delta_seconds = real_of_int delta / 1000
      in CheckPlayerRetirement now order retire_now
           (GenerateLootItems (UpdateGameState calc std_sort delta_seconds app)))"

section \<open>The records table\<close>

record RetiredRow =
  row_name :: string
  row_score :: int
  row_play_time_ms :: int

text \<open>
  \<^verbatim>\<open>static_cast<int64_t>\<close> of a \<^verbatim>\<open>double\<close> drops the fraction (it truncates
  toward zero). The conversion is undefined when the truncated number does not fit 64
  bits; the model gives no result there.
\<close>

definition static_cast_int64 :: "real \<Rightarrow> int option" where
  "static_cast_int64 x =
     (let z = (if 0 \<le> x then \<lfloor>x\<rfloor> else \<lceil>x\<rceil>)
      in if - (2 ^ 63) \<le> z \<and> z < 2 ^ 63 then Some z else None)"

text \<open>
  \<^verbatim>\<open>Database::AddRetiredPlayer\<close>: the table is the list of its rows, the insert
  appends one. The cast is applied to the product as a double, that is, to the exact
  product rounded to double precision.
\<close>

definition AddRetiredPlayer ::
  "string \<Rightarrow> int \<Rightarrow> real \<Rightarrow> RetiredRow list \<Rightarrow> RetiredRow list option" where
  "AddRetiredPlayer name score' play_time_seconds table =
     (case static_cast_int64 (to_double (play_time_seconds * 1000)) of
        None \<Rightarrow> None
      | Some play_time_ms \<Rightarrow>
          Some (table @ [\<lparr>row_name = name, row_score = score',
                          row_play_time_ms = play_time_ms\<rparr>]))"

section \<open>The sort of the GNU C++ library\<close>

text \<open>
  \<^verbatim>\<open>std::sort\<close> as the GNU C++ library runs it on a vector (its headers
  \<^verbatim>\<open>stl_algo.h\<close> and \<^verbatim>\<open>stl_heap.h\<close>, not among the sources): quicksort with the median
  of three as pivot on ranges of more than 16 elements, heap sort once the recursion is
  2 lg n deep, and a final insertion sort. The vector is a list, an iterator a position in
  it, and \<open>lt\<close> the comparison. The inner loops of the library run unguarded; the model
  stops them at the ends of the list, which they do not reach under a strict weak order.
\<close>

definition iter_swap :: "'a list \<Rightarrow> nat \<Rightarrow> nat \<Rightarrow> 'a list" where
  "iter_swap xs i j = xs[i := xs ! j, j := xs ! i]"

definition move_median_to_first ::
  "('a \<Rightarrow> 'a \<Rightarrow> bool) \<Rightarrow> 'a list \<Rightarrow> nat \<Rightarrow> nat \<Rightarrow> nat \<Rightarrow> nat \<Rightarrow> 'a list" where
  "move_median_to_first lt xs result a b c =
     (if lt (xs ! a) (xs ! b) then
        (if lt (xs ! b) (xs ! c) then iter_swap xs result b
         else if lt (xs ! a) (xs ! c) then iter_swap xs result c
         else iter_swap xs result a)
      else if lt (xs ! a) (xs ! c) then iter_swap xs result a
      else if lt (xs ! b) (xs ! c) then iter_swap xs result c
      else iter_swap xs result b)"

text \<open>
  The two inner loops of \<^verbatim>\<open>__unguarded_partition\<close>: forward over the elements
  that compare less than the pivot, backward over those the pivot compares less than.
\<close>

definition skip_up :: "('a \<Rightarrow> 'a \<Rightarrow> bool) \<Rightarrow> 'a list \<Rightarrow> 'a \<Rightarrow> nat \<Rightarrow> nat" where
  "skip_up lt xs pivot first = first + length (takeWhile (\<lambda>x. lt x pivot) (drop first xs))"

definition skip_down :: "('a \<Rightarrow> 'a \<Rightarrow> bool) \<Rightarrow> 'a list \<Rightarrow> 'a \<Rightarrow> nat \<Rightarrow> nat" where
  "skip_down lt xs pivot stop =
     stop - length (takeWhile (\<lambda>x. lt pivot x) (rev (take (Suc stop) xs)))"

function unguarded_partition ::
  "('a \<Rightarrow> 'a \<Rightarrow> bool) \<Rightarrow> 'a list \<Rightarrow> nat \<Rightarrow> nat \<Rightarrow> nat \<Rightarrow> 'a list \<times> nat" where
  "unguarded_partition lt xs first stop pivot =
     (let first' = skip_up lt xs (xs ! pivot) first;
          stop' = skip_down lt xs (xs ! pivot) (stop - 1)
      in if \<not> first' < stop' then (xs, first')
         else unguarded_partition lt (iter_swap xs first' stop') (first' + 1) stop' pivot)"
  by pat_completeness auto
termination
  by (relation "measure (\<lambda>(lt, xs, first, stop, pivot). stop - first)")
     (auto simp: skip_up_def skip_down_def Let_def)

declare unguarded_partition.simps [simp del]

definition unguarded_partition_pivot ::
  "('a \<Rightarrow> 'a \<Rightarrow> bool) \<Rightarrow> 'a list \<Rightarrow> nat \<Rightarrow> nat \<Rightarrow> 'a list \<times> nat" where
  "unguarded_partition_pivot lt xs first stop =
     (let mid = first + (stop - first) div 2
      in unguarded_partition lt
           (move_median_to_first lt xs first (first + 1) mid (stop - 1))
           (first + 1) stop first)"

text \<open>The heap operations, on the range that starts at position \<open>first\<close>.\<close>

function push_heap ::
  "('a \<Rightarrow> 'a \<Rightarrow> bool) \<Rightarrow> 'a list \<Rightarrow> nat \<Rightarrow> nat \<Rightarrow> nat \<Rightarrow> 'a \<Rightarrow> 'a list" where
  "push_heap lt xs first hole_index top_index val =
     (let parent = (hole_index - 1) div 2
      in if hole_index > top_index \<and> lt (xs ! (first + parent)) val
         then push_heap lt (xs[first + hole_index := xs ! (first + parent)]) first parent
                top_index val
         else xs[first + hole_index := val])"
  by pat_completeness auto
termination
  by (relation "measure (\<lambda>(lt, xs, first, hole_index, top_index, val). hole_index)") auto

declare push_heap.simps [simp del]

function adjust_heap_loop ::
  "('a \<Rightarrow> 'a \<Rightarrow> bool) \<Rightarrow> 'a list \<Rightarrow> nat \<Rightarrow> nat \<Rightarrow> nat \<Rightarrow> 'a list \<times> nat" where
  "adjust_heap_loop lt xs first len second_child =
     (if second_child < (len - 1) div 2 then
        (let child = 2 * (second_child + 1);
             child' = (if lt (xs ! (first + child)) (xs ! (first + (child - 1)))
                       then child - 1 else child)
         in adjust_heap_loop lt (xs[first + second_child := xs ! (first + child')]) first len
              child')
      else (xs, second_child))"
  by pat_completeness auto
termination
  by (relation "measure (\<lambda>(lt, xs, first, len, second_child). len - second_child)")
     (auto simp: Let_def)

declare adjust_heap_loop.simps [simp del]

definition adjust_heap ::
  "('a \<Rightarrow> 'a \<Rightarrow> bool) \<Rightarrow> 'a list \<Rightarrow> nat \<Rightarrow> nat \<Rightarrow> nat \<Rightarrow> 'a \<Rightarrow> 'a list" where
  "adjust_heap lt xs first hole_index len val =
     (case adjust_heap_loop lt xs first len hole_index of
        (xs1, second_child) \<Rightarrow>
          if even len \<and> second_child = (len - 2) div 2 then
            (let child = 2 * (second_child + 1)
             in push_heap lt (xs1[first + second_child := xs1 ! (first + (child - 1))]) first
                  (child - 1) hole_index val)
          else push_heap lt xs1 first second_child hole_index val)"

definition make_heap :: "('a \<Rightarrow> 'a \<Rightarrow> bool) \<Rightarrow> 'a list \<Rightarrow> nat \<Rightarrow> nat \<Rightarrow> 'a list" where
  "make_heap lt xs first stop =
     (if stop - first < 2 then xs
      else fold (\<lambda>parent ys. adjust_heap lt ys first parent (stop - first) (ys ! (first + parent)))
             (rev [0..<Suc ((stop - first - 2) div 2)]) xs)"

definition pop_heap ::
  "('a \<Rightarrow> 'a \<Rightarrow> bool) \<Rightarrow> 'a list \<Rightarrow> nat \<Rightarrow> nat \<Rightarrow> nat \<Rightarrow> 'a list" where
  "pop_heap lt xs first stop result =
     adjust_heap lt (xs[result := xs ! first]) first 0 (stop - first) (xs ! result)"

definition sort_heap :: "('a \<Rightarrow> 'a \<Rightarrow> bool) \<Rightarrow> 'a list \<Rightarrow> nat \<Rightarrow> nat \<Rightarrow> 'a list" where
  "sort_heap lt xs first stop =
     fold (\<lambda>stop' ys. pop_heap lt ys first stop' stop') (rev [first + 1..<stop]) xs"

definition heap_select ::
  "('a \<Rightarrow> 'a \<Rightarrow> bool) \<Rightarrow> 'a list \<Rightarrow> nat \<Rightarrow> nat \<Rightarrow> nat \<Rightarrow> 'a list" where
  "heap_select lt xs first middle stop =
     fold (\<lambda>i ys. if lt (ys ! i) (ys ! first) then pop_heap lt ys first middle i else ys)
       [middle..<stop] (make_heap lt xs first middle)"

definition partial_sort ::
  "('a \<Rightarrow> 'a \<Rightarrow> bool) \<Rightarrow> 'a list \<Rightarrow> nat \<Rightarrow> nat \<Rightarrow> nat \<Rightarrow> 'a list" where
  "partial_sort lt xs first middle stop =
     sort_heap lt (heap_select lt xs first middle stop) first middle"

text \<open>
  \<^verbatim>\<open>__introsort_loop\<close>: each round of its loop partitions, sorts the upper part
  by a recursive call and goes on with the lower part.
\<close>

fun introsort_loop ::
  "('a \<Rightarrow> 'a \<Rightarrow> bool) \<Rightarrow> 'a list \<Rightarrow> nat \<Rightarrow> nat \<Rightarrow> nat \<Rightarrow> 'a list" where
  "introsort_loop lt xs first stop 0 =
     (if stop - first > 16 then partial_sort lt xs first stop stop else xs)"
| "introsort_loop lt xs first stop (Suc depth_limit) =
     (if stop - first > 16 then
        (case unguarded_partition_pivot lt xs first stop of
           (xs1, cut_at) \<Rightarrow>
             introsort_loop lt (introsort_loop lt xs1 cut_at stop depth_limit) first cut_at
               depth_limit)
      else xs)"

text \<open>The insertion sorts that finish the job.\<close>

fun unguarded_linear_insert :: "('a \<Rightarrow> 'a \<Rightarrow> bool) \<Rightarrow> 'a \<Rightarrow> 'a list \<Rightarrow> nat \<Rightarrow> 'a list" where
  "unguarded_linear_insert lt val xs 0 = xs[0 := val]"
| "unguarded_linear_insert lt val xs (Suc next) =
     (if lt val (xs ! next)
      then unguarded_linear_insert lt val (xs[Suc next := xs ! next]) next
      else xs[Suc next := val])"

definition insertion_step :: "('a \<Rightarrow> 'a \<Rightarrow> bool) \<Rightarrow> nat \<Rightarrow> nat \<Rightarrow> 'a list \<Rightarrow> 'a list" where
  "insertion_step lt first i xs =
     (if lt (xs ! i) (xs ! first)
      then take first xs @ [xs ! i] @ take (i - first) (drop first xs) @ drop (Suc i) xs
      else unguarded_linear_insert lt (xs ! i) xs i)"

definition insertion_sort :: "('a \<Rightarrow> 'a \<Rightarrow> bool) \<Rightarrow> 'a list \<Rightarrow> nat \<Rightarrow> nat \<Rightarrow> 'a list" where
  "insertion_sort lt xs first stop = fold (insertion_step lt first) [first + 1..<stop] xs"

definition unguarded_insertion_sort ::
  "('a \<Rightarrow> 'a \<Rightarrow> bool) \<Rightarrow> 'a list \<Rightarrow> nat \<Rightarrow> nat \<Rightarrow> 'a list" where
  "unguarded_insertion_sort lt xs first stop =
     fold (\<lambda>i ys. unguarded_linear_insert lt (ys ! i) ys i) [first..<stop] xs"

definition final_insertion_sort ::
  "('a \<Rightarrow> 'a \<Rightarrow> bool) \<Rightarrow> 'a list \<Rightarrow> nat \<Rightarrow> nat \<Rightarrow> 'a list" where
  "final_insertion_sort lt xs first stop =
     (if stop - first > 16
      then unguarded_insertion_sort lt (insertion_sort lt xs first (first + 16)) (first + 16) stop
      else insertion_sort lt xs first stop)"

text \<open>\<^verbatim>\<open>std::__lg\<close>, the binary logarithm rounded down.\<close>

fun lg :: "nat \<Rightarrow> nat" where
  "lg n = (if n < 2 then 0 else Suc (lg (n div 2)))"

declare lg.simps [simp del]

definition gnu_sort :: "('a \<Rightarrow> 'a \<Rightarrow> bool) \<Rightarrow> 'a list \<Rightarrow> 'a list" where
  "gnu_sort lt xs =
     (if xs = [] then xs
      else final_insertion_sort lt (introsort_loop lt xs 0 (length xs) (lg (length xs) * 2)) 0
             (length xs))"

text \<open>The sort as \<^verbatim>\<open>ProcessDogCollisions\<close> calls it.\<close>

definition gnu_std_sort :: "CollisionEvent list \<Rightarrow> CollisionEvent list" where
  "gnu_std_sort events = gnu_sort (\<lambda>a b. timestamp a < timestamp b) events"

section \<open>Properties stated about the program\<close>

text \<open>
  The capacity of the map an id resolves to, and what the data model asks of a dog: it
  carries the capacity of its map and no more items than that.
\<close>

definition cap_of :: "GameMap list \<Rightarrow> map_id \<Rightarrow> nat option" where
  "cap_of ms mid = map_option map_bag_capacity (find_map ms mid)"

definition dog_ok :: "GameMap list \<Rightarrow> Dog \<Rightarrow> bool" where
  "dog_ok ms d =
     (cap_of ms (dog_map_id d) = Some (bag_capacity d) \<and> length (bag d) \<le> bag_capacity d)"

definition bags_ok :: "Application \<Rightarrow> bool" where
  "bags_ok app = list_all (dog_ok (maps (game app))) (dogs (game app))"

text \<open>
  The states the server can be in: an application built over a game without dogs, and
  whatever joins, actions and ticks make of it. A tick may sort with any function that
  keeps the contract of \<^verbatim>\<open>std::sort\<close>.
\<close>

inductive reachable :: "Application \<Rightarrow> bool" where
  fresh: "dogs (game app) = [] \<Longrightarrow> reachable app"
| join: "reachable app \<Longrightarrow>
         reachable (snd (JoinGame user_name mid new_token random_position now app))"
| action: "reachable app \<Longrightarrow> reachable (snd (SetPlayerAction player move now app))"
| tick: "reachable app \<Longrightarrow> std_sort_contract std_sort \<Longrightarrow>
         reachable (Tick calc std_sort delta now order retire_now app)"





text \<open>
  Modelled from the spec: a road strip is the rectangle of half-width 0.4 around the
  road's axis (\<^verbatim>\<open>model::Road\<close> is declared in model.h, which is not among the
  sources; the loader builds a road from its orientation, start point and end
  coordinate).
\<close>

definition on_road :: "Road \<Rightarrow> Position \<Rightarrow> bool" where
  "on_road r p =
     (let x0 = real_of_int (pt_x (road_start r));
          y0 = real_of_int (pt_y (road_start r));
          e = real_of_int (road_end r)
      in case road_kind r of
           HORIZONTAL \<Rightarrow>
             min x0 e - 4 / 10 \<le> pos_x p \<and> pos_x p \<le> max x0 e + 4 / 10 \<and>
             y0 - 4 / 10 \<le> pos_y p \<and> pos_y p \<le> y0 + 4 / 10
         | VERTICAL \<Rightarrow>
             min y0 e - 4 / 10 \<le> pos_y p \<and> pos_y p \<le> max y0 e + 4 / 10 \<and>
             x0 - 4 / 10 \<le> pos_x p \<and> pos_x p \<le> x0 + 4 / 10)"

text \<open>The moves \<^verbatim>\<open>SetPlayerAction\<close> is specified to accept.\<close>

definition known_move :: "string \<Rightarrow> bool" where
  "known_move move = (move \<in> {''L'', ''R'', ''U'', ''D'', []})"

subsection \<open>A small world to run the program on\<close>

definition example_map :: GameMap where
  "example_map =
     \<lparr>map_ident = ''map1'', map_name = ''Town'',
      roads = [\<lparr>road_kind = HORIZONTAL, road_start = \<lparr>pt_x = 0, pt_y = 0\<rparr>, road_end = 10\<rparr>],
      offices = [], loot_items = [], dog_speed = 1, map_bag_capacity = 3\<rparr>"

definition example_game :: Game where
  "example_game =
     \<lparr>maps = [example_map], dogs = [], players = [],
      token_to_player_index = Map.empty, player_id_to_index = Map.empty,
      dog_id_to_index = Map.empty\<rparr>"

definition example_app :: Application where
  "example_app =
     \<lparr>game = example_game, randomize_spawn_points = False,
      dog_retirement_time_seconds = 60, player_metadata = Map.empty,
      retirement_callback_set = True, retired_records = [],
      next_loot_id = 0, next_dog_id = 0, next_player_id = 0\<rparr>"

text \<open>A motion constrainer that never clips, standing in for \<^verbatim>\<open>CalculateMovement\<close>.\<close>

definition free_movement :: movement where
  "free_movement mid p v delta_time =
     \<lparr>new_position = \<lparr>pos_x = pos_x p + vx v * delta_time, pos_y = pos_y p + vy v * delta_time\<rparr>,
      collision_occurred = False\<rparr>"

text \<open>
  The third scenario of the spec: one road from (0,0) to (10,0), loot worth 10 at (2,0),
  an office at (8,0), dogs running at speed 10.
\<close>

definition scenario_map :: GameMap where
  "scenario_map =
     \<lparr>map_ident = ''map1'', map_name = ''Town'',
      roads = [\<lparr>road_kind = HORIZONTAL, road_start = \<lparr>pt_x = 0, pt_y = 0\<rparr>, road_end = 10\<rparr>],
      offices = [\<lparr>office_id = ''o1'', office_position = \<lparr>pt_x = 8, pt_y = 0\<rparr>,
                  office_offset = \<lparr>pt_x = 0, pt_y = 0\<rparr>\<rparr>],
      loot_items = [\<lparr>loot_item_id = 7, loot_type = 2, loot_value = 10,
                     loot_position = \<lparr>pos_x = 2, pos_y = 0\<rparr>\<rparr>],
      dog_speed = 10, map_bag_capacity = 3\<rparr>"

definition scenario_app :: Application where
  "scenario_app = example_app\<lparr>game := example_game\<lparr>maps := [scenario_map]\<rparr>\<rparr>"

definition origin :: Position where
  "origin = \<lparr>pos_x = 0, pos_y = 0\<rparr>"

text \<open>Player A has joined the scenario; then A has been told to run to the right.\<close>

definition scenario_joined :: Application where
  "scenario_joined = snd (JoinGame ''A'' ''map1'' ''tokenA'' origin 0 scenario_app)"

definition player_A :: Player where
  "player_A = \<lparr>player_ident = 0, player_name = ''A'', player_dog_id = 0,
               player_map_id = ''map1'', player_token = ''tokenA''\<rparr>"

definition scenario_running :: Application where
  "scenario_running = snd (SetPlayerAction player_A ''R'' 0 scenario_joined)"

text \<open>
  One tick of the running scenario with a stable sort: half a second takes the dog to
  (5,0), past the loot; a full second takes it to (10,0), past the loot and the office.
\<close>

definition scenario_half_tick :: Application where
  "scenario_half_tick =
     Tick free_movement (sort_key timestamp) 500 1000000000 [0] (\<lambda>_. 1000000000)
       scenario_running"

definition scenario_full_tick :: Application where
  "scenario_full_tick =
     Tick free_movement (sort_key timestamp) 1000 1000000000 [0] (\<lambda>_. 1000000000)
       scenario_running"

text \<open>
  The dog of player A as a tick finds it after the set-action call, and the loot of the
  scenario.
\<close>

definition scenario_dog :: Dog where
  "scenario_dog =
     \<lparr>dog_ident = 0, dog_name = ''A'', dog_map_id = ''map1'', dog_position = origin,
      dog_velocity = \<lparr>vx = 10, vy = 0\<rparr>, dog_direction = East,
      bag = [], bag_capacity = 3, score = 0\<rparr>"


text \<open>
  A map whose road runs along the line on which the loot generator puts its items, with an
  office at (10,10); the same map once the generator has stocked it; and a dog standing at
  (10,10), on the first generated item and on the office.
\<close>

definition road_map :: GameMap where
  "road_map =
     \<lparr>map_ident = ''map1'', map_name = ''Town'',
      roads = [\<lparr>road_kind = HORIZONTAL, road_start = \<lparr>pt_x = 0, pt_y = 10\<rparr>, road_end = 40\<rparr>],
      offices = [\<lparr>office_id = ''o1'', office_position = \<lparr>pt_x = 10, pt_y = 10\<rparr>,
                  office_offset = \<lparr>pt_x = 0, pt_y = 0\<rparr>\<rparr>],
      loot_items = [], dog_speed = 1, map_bag_capacity = 3\<rparr>"

definition road_app :: Application where
  "road_app = example_app\<lparr>game := example_game\<lparr>maps := [road_map]\<rparr>\<rparr>"

definition stocked_map :: GameMap where
  "stocked_map = road_map\<lparr>loot_items := map (\<lambda>i. generated_item i (of_nat i)) [0..<5]\<rparr>"

definition plaza :: Position where
  "plaza = \<lparr>pos_x = 10, pos_y = 10\<rparr>"

definition standing_dog :: Dog where
  "standing_dog =
     \<lparr>dog_ident = 0, dog_name = ''A'', dog_map_id = ''map1'', dog_position = plaza,
      dog_velocity = \<lparr>vx = 0, vy = 0\<rparr>, dog_direction = East,
      bag = [], bag_capacity = 3, score = 0\<rparr>"

text \<open>
  A map as the loader stocks it for a configuration with one loot type of value 0.5: three
  items, the first of them at (10,10). The road runs from (0,10) to (40,10) and an office
  stands at (12,10). Player A joins, is told to run to the right, and one tick of twenty
  seconds takes the dog from (0,10) to (20,10), past the first item and the office.
\<close>

definition half_map :: GameMap where
  "half_map =
     \<lparr>map_ident = ''map1'', map_name = ''Town'',
      roads = [\<lparr>road_kind = HORIZONTAL, road_start = \<lparr>pt_x = 0, pt_y = 10\<rparr>, road_end = 40\<rparr>],
      offices = [\<lparr>office_id = ''o1'', office_position = \<lparr>pt_x = 12, pt_y = 10\<rparr>,
                  office_offset = \<lparr>pt_x = 0, pt_y = 0\<rparr>\<rparr>],
      loot_items =
        [\<lparr>loot_item_id = 0, loot_type = 1, loot_value = 1 / 2,
          loot_position = \<lparr>pos_x = 10, pos_y = 10\<rparr>\<rparr>,
         \<lparr>loot_item_id = 1, loot_type = 2, loot_value = 1 / 2,
          loot_position = \<lparr>pos_x = 15, pos_y = 13\<rparr>\<rparr>,
         \<lparr>loot_item_id = 2, loot_type = 3, loot_value = 1 / 2,
          loot_position = \<lparr>pos_x = 20, pos_y = 16\<rparr>\<rparr>],
      dog_speed = 1, map_bag_capacity = 3\<rparr>"

definition half_app :: Application where
  "half_app = example_app\<lparr>game := example_game\<lparr>maps := [half_map]\<rparr>\<rparr>"

definition half_running :: Application where
  "half_running =
     snd (SetPlayerAction player_A ''R'' 0
            (snd (JoinGame ''A'' ''map1'' ''tokenA'' origin 0 half_app)))"

definition half_tick :: Application where
  "half_tick =
     Tick free_movement (sort_key timestamp) 20000 1000000000 [0] (\<lambda>_. 1000000000)
       half_running"


text \<open>The number of maps in a list that have no loot.\<close>

definition empties :: "GameMap list \<Rightarrow> nat" where
  "empties ms = length (filter (\<lambda>m. loot_items m = []) ms)"

text \<open>The example world with dogs that do not move: the map's dog speed is 0.\<close>

definition still_app :: Application where
  "still_app = example_app\<lparr>game := example_game\<lparr>maps := [example_map\<lparr>dog_speed := 0\<rparr>]\<rparr>\<rparr>"

definition still_joined :: Application where
  "still_joined = snd (JoinGame ''A'' ''map1'' ''tokenA'' origin 0 still_app)"

text \<open>
  Two players on the road map: A joins, then B. Both stand through a first tick, B is then
  told to run, and a second tick comes sixty seconds after the first.
\<close>

definition player_B :: Player where
  "player_B = \<lparr>player_ident = 1, player_name = ''B'', player_dog_id = 1,
               player_map_id = ''map1'', player_token = ''tokenB''\<rparr>"

definition two_joined :: Application where
  "two_joined =
     snd (JoinGame ''B'' ''map1'' ''tokenB'' origin 0
            (snd (JoinGame ''A'' ''map1'' ''tokenA'' origin 0 road_app)))"

definition two_first_tick :: Application where
  "two_first_tick =
     Tick free_movement (sort_key timestamp) 50 1000000000 [0, 1] (\<lambda>_. 1000000000) two_joined"

definition two_B_running :: Application where
  "two_B_running = snd (SetPlayerAction player_B ''R'' 2000000000 two_first_tick)"

definition two_A_retired :: Application where
  "two_A_retired =
     Tick free_movement (sort_key timestamp) 50 61000000000 [0, 1] (\<lambda>_. 61000000000)
       two_B_running"




text \<open>The id of item \<open>i\<close> on the map at position \<open>j\<close> once the generator has run.\<close>

definition issued_id :: "Application \<Rightarrow> nat \<Rightarrow> nat \<Rightarrow> loot_id" where
  "issued_id app j i = loot_item_id (loot_items (maps (game (GenerateLootItems app)) ! j) ! i)"

text \<open>A third player C joins after A and B.\<close>

definition three_joined :: Application where
  "three_joined = snd (JoinGame ''C'' ''map1'' ''tokenC'' origin 0 two_joined)"

text \<open>
  A fourth player D joins after C; then A is retired and, in the same instant, B.
\<close>

definition four_joined :: Application where
  "four_joined = snd (JoinGame ''D'' ''map1'' ''tokenD'' origin 0 three_joined)"

definition four_B_retired :: Application where
  "four_B_retired = RetirePlayer 1 61000000000 (RetirePlayer 0 61000000000 four_joined)"

section \<open>Proofs\<close>

subsection \<open>Listing the players of a map\<close>

lemma fold_push_back_filter:
  "fold (\<lambda>p acc. if P p then acc @ [p] else acc) xs acc0 = acc0 @ filter P xs"
  by (induction xs arbitrary: acc0) simp_all

text \<open>
  Claim C10. For every token and every state, \<^verbatim>\<open>GetPlayers\<close> and
  \<^verbatim>\<open>GetGameState\<close> return the same list: empty when the token does not resolve to
  a player, and otherwise the players whose map is the map of the player the token
  resolves to, in the order of the players sequence.
\<close>

theorem GetPlayers_GetGameState_same:
  "GetPlayers auth_token app = GetGameState auth_token app \<and>
   GetPlayers auth_token app =
     (case FindPlayerByToken app auth_token of
        None \<Rightarrow> []
      | Some i \<Rightarrow>
          filter (\<lambda>p. player_map_id p = player_map_id (players (game app) ! i))
            (players (game app)))"
  by (simp add: GetPlayers_def GetGameState_def fold_push_back_filter Let_def
           split: option.splits)

subsection \<open>Double precision\<close>

lemma pow2_powr: "pow2 e = 2 powr (real_of_int e)"
  by (simp add: pow2_def powr_realpow[symmetric] powr_minus inverse_eq_divide)

lemma pow2_pos: "0 < pow2 e"
  by (simp add: pow2_powr)

lemma pow2_add: "pow2 (a + b) = pow2 a * pow2 b"
  by (simp add: pow2_powr powr_add)

lemma floor_log2_bounds:
  assumes "x \<noteq> 0"
  shows "pow2 \<lfloor>log 2 \<bar>x\<bar>\<rfloor> \<le> \<bar>x\<bar>" "\<bar>x\<bar> < pow2 (\<lfloor>log 2 \<bar>x\<bar>\<rfloor> + 1)"
proof -
  from assms have p: "0 < \<bar>x\<bar>" by simp
  have "real_of_int \<lfloor>log 2 \<bar>x\<bar>\<rfloor> \<le> log 2 \<bar>x\<bar>" by simp
  with p show "pow2 \<lfloor>log 2 \<bar>x\<bar>\<rfloor> \<le> \<bar>x\<bar>"
    by (simp add: pow2_powr le_log_iff del: of_int_floor_le)
  have "log 2 \<bar>x\<bar> < real_of_int (\<lfloor>log 2 \<bar>x\<bar>\<rfloor> + 1)" by linarith
  with p have "\<bar>x\<bar> < 2 powr real_of_int (\<lfloor>log 2 \<bar>x\<bar>\<rfloor> + 1)"
    by (simp only: less_powr_iff[of 2, simplified])
  then show "\<bar>x\<bar> < pow2 (\<lfloor>log 2 \<bar>x\<bar>\<rfloor> + 1)"
    by (simp only: pow2_powr)
qed

lemma floor_log2_eq:
  assumes "pow2 e \<le> \<bar>x\<bar>" "\<bar>x\<bar> < pow2 (e + 1)"
  shows "\<lfloor>log 2 \<bar>x\<bar>\<rfloor> = e"
proof -
  from assms(1) pow2_pos[of e] have p: "0 < \<bar>x\<bar>" by linarith
  from assms(1) p have "real_of_int e \<le> log 2 \<bar>x\<bar>"
    by (simp add: pow2_powr le_log_iff)
  moreover from assms(2) p have "log 2 \<bar>x\<bar> < real_of_int (e + 1)"
    by (simp add: pow2_powr log_less_iff)
  ultimately show ?thesis by linarith
qed

text \<open>How \<open>to_double\<close> is computed once the binade of its argument is known.\<close>

lemma to_double_in_binade:
  assumes "pow2 e \<le> \<bar>x\<bar>" "\<bar>x\<bar> < pow2 (e + 1)" "- 1022 \<le> e"
  shows "to_double x = real_of_int (round_to_even (x / pow2 (e - 52))) * pow2 (e - 52)"
proof -
  from assms(1) pow2_pos[of e] have "x \<noteq> 0" by auto
  moreover from floor_log2_eq[OF assms(1,2)] assms(3) have "binade x = e"
    by (simp add: binade_def)
  ultimately show ?thesis by (simp add: to_double_def)
qed

lemma round_to_even_of_int: "round_to_even (real_of_int k) = k"
  by (simp add: round_to_even_def)

lemma round_to_even_near: "\<bar>real_of_int (round_to_even y) - y\<bar> \<le> 1 / 2"
  by (simp add: round_to_even_def Let_def)

lemma round_to_even_sign:
  "0 \<le> y \<Longrightarrow> 0 \<le> round_to_even y" "y \<le> 0 \<Longrightarrow> round_to_even y \<le> 0"
proof -
  assume "0 \<le> y"
  then have "0 \<le> \<lfloor>y\<rfloor>" by simp
  then show "0 \<le> round_to_even y" by (simp add: round_to_even_def Let_def)
next
  assume y: "y \<le> 0"
  show "round_to_even y \<le> 0"
  proof (cases "y - real_of_int \<lfloor>y\<rfloor> < 1 / 2")
    case True
    with y show ?thesis by (simp add: round_to_even_def Let_def)
  next
    case False
    then have "y \<noteq> real_of_int \<lfloor>y\<rfloor>" by auto
    moreover have "real_of_int \<lfloor>y\<rfloor> \<le> y" by simp
    ultimately have "real_of_int \<lfloor>y\<rfloor> < 0" using y by linarith
    then have "\<lfloor>y\<rfloor> + 1 \<le> 0" by linarith
    with False show ?thesis by (simp add: round_to_even_def Let_def)
  qed
qed

lemma to_double_sign: "0 \<le> x \<Longrightarrow> 0 \<le> to_double x" "x \<le> 0 \<Longrightarrow> to_double x \<le> 0"
proof -
  assume "0 \<le> x"
  then have "0 \<le> x / pow2 (binade x - 52)" using pow2_pos[of "binade x - 52"] by simp
  from round_to_even_sign(1)[OF this] show "0 \<le> to_double x"
    using pow2_pos[of "binade x - 52"] by (simp add: to_double_def)
next
  assume "x \<le> 0"
  then have "x / pow2 (binade x - 52) \<le> 0" using pow2_pos[of "binade x - 52"]
    by (simp add: divide_le_0_iff)
  from round_to_even_sign(2)[OF this] show "to_double x \<le> 0"
    using pow2_pos[of "binade x - 52"] by (simp add: to_double_def mult_le_0_iff)
qed

text \<open>Rounding moves a number of normal size by at most one part in two to the power 53.\<close>

lemma to_double_error:
  assumes "pow2 (- 1022) \<le> \<bar>x\<bar>"
  shows "\<bar>to_double x - x\<bar> \<le> \<bar>x\<bar> / 2 ^ 53"
proof -
  from assms pow2_pos[of "- 1022"] have nz: "x \<noteq> 0" by auto
  let ?e = "\<lfloor>log 2 \<bar>x\<bar>\<rfloor>"
  let ?u = "pow2 (?e - 52)"
  from nz have "0 < \<bar>x\<bar>" by simp
  with assms have "real_of_int (- 1022) \<le> log 2 \<bar>x\<bar>"
    by (simp add: pow2_powr le_log_iff)
  then have "- 1022 \<le> ?e" by linarith
  then have b: "binade x = ?e" by (simp add: binade_def)
  have u: "0 < ?u" by (rule pow2_pos)
  have "to_double x - x = (real_of_int (round_to_even (x / ?u)) - x / ?u) * ?u"
    using nz b u by (simp add: to_double_def algebra_simps)
  then have "\<bar>to_double x - x\<bar> = \<bar>real_of_int (round_to_even (x / ?u)) - x / ?u\<bar> * ?u"
    using u by (simp add: abs_mult)
  also have "\<dots> \<le> 1 / 2 * ?u"
    using round_to_even_near[of "x / ?u"] u by (intro mult_right_mono) simp_all
  also have "\<dots> = pow2 ?e / 2 ^ 53"
    using pow2_add[of ?e "- 52"] by (simp add: pow2_def)
  also have "\<dots> \<le> \<bar>x\<bar> / 2 ^ 53"
    using floor_log2_bounds(1)[OF nz] by (simp add: divide_right_mono)
  finally show ?thesis .
qed

text \<open>Integers of up to 53 bits are doubles.\<close>

lemma to_double_of_int:
  assumes "\<bar>n\<bar> < 2 ^ 53"
  shows "to_double (real_of_int n) = real_of_int n"
proof (cases "n = 0")
  case True
  then show ?thesis by (simp add: to_double_def)
next
  case False
  let ?x = "real_of_int n"
  let ?e = "\<lfloor>log 2 \<bar>?x\<bar>\<rfloor>"
  have one: "1 \<le> \<bar>?x\<bar>"
  proof -
    from False have "1 \<le> \<bar>n\<bar>" by simp
    then have "real_of_int 1 \<le> real_of_int \<bar>n\<bar>" by (simp only: of_int_le_iff)
    then show ?thesis by simp
  qed
  then have "0 \<le> log 2 \<bar>?x\<bar>" by simp
  then have e0: "0 \<le> ?e" by simp
  have "\<bar>?x\<bar> < 2 ^ 53"
  proof -
    from assms have "real_of_int \<bar>n\<bar> < real_of_int (2 ^ 53)" by (simp only: of_int_less_iff)
    then show ?thesis by simp
  qed
  with one have "log 2 \<bar>?x\<bar> < 53" by (simp add: log_less_iff)
  then have e52: "?e \<le> 52" by linarith
  from e0 have b: "binade ?x = ?e" by (simp add: binade_def)
  define k where "k = nat (52 - ?e)"
  from e52 have u: "pow2 (?e - 52) = 1 / 2 ^ k"
    by (cases "?e = 52") (simp_all add: pow2_def k_def)
  have "?x / pow2 (?e - 52) = real_of_int (n * 2 ^ k)" by (simp add: u)
  then have "round_to_even (?x / pow2 (?e - 52)) = n * 2 ^ k"
    by (simp only: round_to_even_of_int)
  with False b u show ?thesis by (simp add: to_double_def)
qed

lemma to_double_numeral: "numeral w < (2 :: int) ^ 53 \<Longrightarrow> to_double (numeral w) = numeral w"
  using to_double_of_int[of "numeral w"] by simp

lemma to_double_zero: "to_double 0 = 0"
  by (simp add: to_double_def)

subsection \<open>Evaluating the program on the examples\<close>

lemmas scenario_defs = scenario_joined_def scenario_app_def scenario_map_def example_app_def
  example_game_def example_map_def origin_def player_A_def scenario_running_def

lemmas op_defs = JoinGame_def FindMap_def find_map_def GetDefaultDogPosition_def new_dog_def
  Let_def RetirePlayer_def FindPlayer_def FindDog_def FindPlayerByToken_def
  duration_cast_ms_def SetPlayerAction_def decode_move_def touch_idle_def
  GetDogSpeedForMap_def to_double_numeral to_double_zero

lemmas tick_defs = Tick_def UpdateGameState_def MoveDog_def free_movement_def
  ProcessDogCollisions_def collect_events_def FindCollisionTime_def office_pos_def
  pickup_event_def return_event_def apply_event_def IsBagFull_def AddToBag_def
  RemoveLootItem_def Map_FindLootItem_def AddScore_def static_cast_int_def ClearBag_def
  GenerateLootItems_def spawn_five_def generated_item_def AddLootItem_def
  CheckPlayerRetirement_def

lemma sqrt_9_100: "sqrt (9 / 100) = 3 / 10"
  by (rule real_sqrt_unique) (simp_all add: power2_eq_square)

lemma sqrt_121_400: "sqrt (121 / 400) = 11 / 20"
  by (rule real_sqrt_unique) (simp_all add: power2_eq_square)

lemma hypot_axis: "hypot x 0 = \<bar>x\<bar>" "hypot 0 y = \<bar>y\<bar>"
  by (simp_all add: hypot_def)

lemma upt_5: "[0..<5] = [0, 1, 2, 3, 4]"
  by (simp add: upt_rec)

lemmas eval_facts = hypot_axis sqrt_9_100 sqrt_121_400 upt_5

lemma sorted_wrt_timestamps:
  "sorted_wrt (\<lambda>a b. \<not> timestamp b < timestamp a) events = sorted (map timestamp events)"
  by (simp add: sorted_map not_less)

lemma stable_sort_in_contract: "std_sort_contract (sort_key timestamp)"
  by (simp add: std_sort_contract_def sorted_wrt_timestamps)


lemma scenario_running_reachable: "reachable scenario_running"
  unfolding scenario_running_def scenario_joined_def
  by (intro reachable.action reachable.join reachable.fresh)
     (simp add: scenario_app_def example_game_def)

subsection \<open>Retirement\<close>

lemma RetirePlayer_retired_noop:
  "player_metadata app pid = Some md \<Longrightarrow> is_retired md \<Longrightarrow> RetirePlayer pid now app = app"
  by (simp add: RetirePlayer_def)

lemma RetirePlayer_cases:
  "(\<forall>now'. RetirePlayer pid now' app = app) \<or>
   (\<exists>md. player_metadata (RetirePlayer pid now app) pid = Some md \<and> is_retired md)"
  by (auto simp: RetirePlayer_def Let_def split: option.splits)

text \<open>
  Claim C9. Retirement is idempotent. Where the metadata of a player id says retired,
  \<^verbatim>\<open>RetirePlayer\<close> returns the state it was given: no record is passed to the
  callback, and the indices, the players and dogs sequences and the metadata stay as
  they were. So a second call for the same id, whatever the clock reads, changes nothing
  of what the first call left.
\<close>

theorem RetirePlayer_idempotent:
  "(player_metadata app pid = Some md \<and> is_retired md \<longrightarrow> RetirePlayer pid now app = app) \<and>
   RetirePlayer pid t2 (RetirePlayer pid t1 app) = RetirePlayer pid t1 app"
proof
  show "player_metadata app pid = Some md \<and> is_retired md \<longrightarrow> RetirePlayer pid now app = app"
    by (simp add: RetirePlayer_retired_noop)
next
  from RetirePlayer_cases[of pid app t1]
  show "RetirePlayer pid t2 (RetirePlayer pid t1 app) = RetirePlayer pid t1 app"
  proof
    assume "\<forall>now'. RetirePlayer pid now' app = app"
    then show ?thesis by simp
  next
    assume "\<exists>md. player_metadata (RetirePlayer pid t1 app) pid = Some md \<and> is_retired md"
    then obtain md' where
      "player_metadata (RetirePlayer pid t1 app) pid = Some md'" "is_retired md'"
      by blast
    then show ?thesis by (rule RetirePlayer_retired_noop)
  qed
qed

theorem RetirePlayer_idempotent_witness:
  "player_metadata (RetirePlayer 0 5000000000 scenario_joined) 0 =
     Some \<lparr>join_time = 0, idle_start_time = None, is_retired = True\<rparr> \<and>
   retired_records (RetirePlayer 0 5000000000 scenario_joined) = [(''A'', 0, 5)] \<and>
   players (game (RetirePlayer 0 5000000000 scenario_joined)) = [] \<and>
   RetirePlayer 0 9000000000 (RetirePlayer 0 5000000000 scenario_joined) =
     RetirePlayer 0 5000000000 scenario_joined"
proof -
  let ?retired = "RetirePlayer 0 5000000000 scenario_joined"
  let ?md = "\<lparr>join_time = 0, idle_start_time = None, is_retired = True\<rparr>"
  have m: "player_metadata ?retired 0 = Some ?md"
    by (simp add: scenario_defs op_defs)
  have r: "retired_records ?retired = [(''A'', 0, 5)]"
    by (simp add: scenario_defs op_defs)
  have p: "players (game ?retired) = []"
    by (simp add: scenario_defs op_defs)
  have "RetirePlayer 0 9000000000 ?retired = ?retired"
    using RetirePlayer_idempotent[of ?retired 0 ?md 9000000000 9000000000 5000000000] m
    by simp
  with m r p show ?thesis by simp
qed

subsection \<open>The bag never holds more than the capacity\<close>

lemma fold_AddScore_frame:
  "bag (fold (\<lambda>b d. AddScore d (bag_item_value b)) bs d) = bag d \<and>
   bag_capacity (fold (\<lambda>b d. AddScore d (bag_item_value b)) bs d) = bag_capacity d \<and>
   dog_map_id (fold (\<lambda>b d. AddScore d (bag_item_value b)) bs d) = dog_map_id d"
  by (induction bs arbitrary: d) (simp_all add: AddScore_def)

lemma apply_event_frame:
  assumes "apply_event ev d m = (d', m')"
  shows "bag_capacity d' = bag_capacity d \<and> dog_map_id d' = dog_map_id d \<and>
         map_ident m' = map_ident m \<and> map_bag_capacity m' = map_bag_capacity m \<and>
         (length (bag d) \<le> bag_capacity d \<longrightarrow> length (bag d') \<le> bag_capacity d)"
  using assms
  by (auto simp: apply_event_def IsBagFull_def AddToBag_def RemoveLootItem_def ClearBag_def
        fold_AddScore_frame split: if_splits option.splits)

lemma apply_events_frame:
  assumes "apply_events evs d m = (d', m')"
  shows "bag_capacity d' = bag_capacity d \<and> dog_map_id d' = dog_map_id d \<and>
         map_ident m' = map_ident m \<and> map_bag_capacity m' = map_bag_capacity m \<and>
         (length (bag d) \<le> bag_capacity d \<longrightarrow> length (bag d') \<le> bag_capacity d)"
  using assms
proof (induction evs arbitrary: d m)
  case Nil
  then show ?case by simp
next
  case (Cons ev evs)
  obtain d1 m1 where step: "apply_event ev d m = (d1, m1)" by (cases "apply_event ev d m")
  with Cons.prems have rest: "apply_events evs d1 m1 = (d', m')" by simp
  from apply_event_frame[OF step] Cons.IH[OF rest] show ?case by auto
qed

lemma cap_of_store_map:
  assumes "find_map ms mid = Some m" "map_ident m' = map_ident m"
    "map_bag_capacity m' = map_bag_capacity m"
  shows "cap_of (store_map mid m' ms) = cap_of ms"
  using assms
  by (induction ms) (auto simp: cap_of_def find_map_def fun_eq_iff)


lemma ProcessDogCollisions_frame:
  assumes "ProcessDogCollisions std_sort ms d s e = (d', ms')"
  shows "cap_of ms' = cap_of ms \<and> bag_capacity d' = bag_capacity d \<and>
         dog_map_id d' = dog_map_id d \<and>
         (length (bag d) \<le> bag_capacity d \<longrightarrow> length (bag d') \<le> bag_capacity d)"
proof (cases "find_map ms (dog_map_id d)")
  case None
  with assms show ?thesis by (simp add: ProcessDogCollisions_def)
next
  case (Some m)
  obtain d1 m1 where ev: "apply_events (std_sort (collect_events d m s e)) d m = (d1, m1)"
    by (cases "apply_events (std_sort (collect_events d m s e)) d m")
  with assms Some have eq: "d' = d1" "ms' = store_map (dog_map_id d) m1 ms"
    by (simp_all add: ProcessDogCollisions_def)
  from apply_events_frame[OF ev] cap_of_store_map[OF Some, of m1] eq show ?thesis by auto
qed

lemma MoveDog_frame:
  "bag (MoveDog calc ms d dt) = bag d \<and> bag_capacity (MoveDog calc ms d dt) = bag_capacity d \<and>
   dog_map_id (MoveDog calc ms d dt) = dog_map_id d"
  by (simp add: MoveDog_def Let_def)

lemma dog_ok_cap: "cap_of ms1 = cap_of ms \<Longrightarrow> dog_ok ms1 = dog_ok ms"
  by (simp add: fun_eq_iff dog_ok_def)

lemma UpdateGameState_loop_ok:
  assumes "UpdateGameState_loop calc std_sort dt ds ms = (ds', ms')" "list_all (dog_ok ms) ds"
  shows "cap_of ms' = cap_of ms \<and> list_all (dog_ok ms') ds'"
  using assms
proof (induction ds arbitrary: ms ds' ms')
  case Nil
  then show ?case by simp
next
  case (Cons d ds)
  let ?d1 = "MoveDog calc ms d dt"
  obtain d2 ms1 where p: "ProcessDogCollisions std_sort ms ?d1 (dog_position d) (dog_position ?d1) = (d2, ms1)"
    by (cases "ProcessDogCollisions std_sort ms ?d1 (dog_position d) (dog_position ?d1)")
  obtain r ms2 where l: "UpdateGameState_loop calc std_sort dt ds ms1 = (r, ms2)"
    by (cases "UpdateGameState_loop calc std_sort dt ds ms1")
  from Cons.prems(1) p l have eq: "ds' = d2 # r" "ms' = ms2" by (simp_all add: Let_def)
  from ProcessDogCollisions_frame[OF p] MoveDog_frame[of calc ms d dt]
  have f: "cap_of ms1 = cap_of ms" "bag_capacity d2 = bag_capacity d" "dog_map_id d2 = dog_map_id d"
    "length (bag d) \<le> bag_capacity d \<longrightarrow> length (bag d2) \<le> bag_capacity d"
    by simp_all
  from Cons.prems(2) dog_ok_cap[OF f(1)] have "list_all (dog_ok ms1) ds" by simp
  from Cons.IH[OF l this] have ih: "cap_of ms2 = cap_of ms1" "list_all (dog_ok ms2) r" by simp_all
  from Cons.prems(2) f ih(1) have "dog_ok ms2 d2" by (simp add: dog_ok_def)
  with ih f(1) eq show ?case by simp
qed

lemma spawn_five_frame:
  "map_ident (fst (spawn_five m n)) = map_ident m \<and>
   map_bag_capacity (fst (spawn_five m n)) = map_bag_capacity m"
proof -
  have "\<And>m n. map_ident (fst (fold (\<lambda>i (m', n). (AddLootItem m' (generated_item i n), n + 1)) xs (m, n))) = map_ident m \<and>
     map_bag_capacity (fst (fold (\<lambda>i (m', n). (AddLootItem m' (generated_item i n), n + 1)) xs (m, n))) = map_bag_capacity m" for xs
    by (induction xs) (simp_all add: AddLootItem_def)
  then show ?thesis unfolding spawn_five_def by blast
qed

lemma cap_of_Cons:
  "cap_of (m # ms) mid = (if map_ident m = mid then Some (map_bag_capacity m) else cap_of ms mid)"
  by (simp add: cap_of_def find_map_def)

lemma GenerateLootItems_loop_cap:
  "cap_of (fst (GenerateLootItems_loop ms n)) = cap_of ms"
proof (induction ms arbitrary: n)
  case Nil
  then show ?case by simp
next
  case (Cons m ms)
  show ?case
  proof (cases "loot_items m = []")
    case True
    obtain m' n' where s: "spawn_five m n = (m', n')" by (cases "spawn_five m n")
    from spawn_five_frame[of m n] s have "map_ident m' = map_ident m" "map_bag_capacity m' = map_bag_capacity m"
      by simp_all
    moreover obtain ms' n'' where "GenerateLootItems_loop ms n' = (ms', n'')"
      by (cases "GenerateLootItems_loop ms n'")
    ultimately show ?thesis using True s Cons.IH[of n']
      by (simp add: fun_eq_iff cap_of_Cons)
  next
    case False
    moreover obtain ms' n'' where "GenerateLootItems_loop ms n = (ms', n'')"
      by (cases "GenerateLootItems_loop ms n")
    ultimately show ?thesis using Cons.IH[of n]
      by (simp add: fun_eq_iff cap_of_Cons)
  qed
qed

lemma GenerateLootItems_bags_ok: "bags_ok app \<Longrightarrow> bags_ok (GenerateLootItems app)"
  using dog_ok_cap[OF GenerateLootItems_loop_cap[of "maps (game app)" "next_loot_id app"]]
  by (auto simp: bags_ok_def GenerateLootItems_def split: prod.splits)

lemma UpdateGameState_bags_ok: "bags_ok app \<Longrightarrow> bags_ok (UpdateGameState calc std_sort dt app)"
  using UpdateGameState_loop_ok[of calc std_sort dt "dogs (game app)" "maps (game app)"]
  by (auto simp: bags_ok_def UpdateGameState_def split: prod.splits)

lemma RetirePlayer_bags_ok: "bags_ok app \<Longrightarrow> bags_ok (RetirePlayer pid now app)"
  by (auto simp: bags_ok_def RetirePlayer_def Let_def list_all_iff split: option.splits)

lemma fold_RetirePlayer_bags_ok:
  "bags_ok app \<Longrightarrow> bags_ok (fold (\<lambda>pid a. RetirePlayer pid (retire_now pid) a) pids app)"
  by (induction pids arbitrary: app) (simp_all add: RetirePlayer_bags_ok)

lemma CheckPlayerRetirement_scan_game:
  "game (fst (CheckPlayerRetirement_scan now order app acc)) = game app"
  by (induction order arbitrary: app acc) (simp_all add: Let_def split: option.splits)

lemma CheckPlayerRetirement_bags_ok:
  "bags_ok app \<Longrightarrow> bags_ok (CheckPlayerRetirement now order retire_now app)"
proof -
  assume ok: "bags_ok app"
  obtain app' ps where s: "CheckPlayerRetirement_scan now order app [] = (app', ps)"
    by (cases "CheckPlayerRetirement_scan now order app []")
  with CheckPlayerRetirement_scan_game[of now order app "[]"] have "game app' = game app" by simp
  with ok have "bags_ok app'" by (simp add: bags_ok_def)
  with s show ?thesis by (simp add: CheckPlayerRetirement_def fold_RetirePlayer_bags_ok)
qed

lemma Tick_bags_ok: "bags_ok app \<Longrightarrow> bags_ok (Tick calc std_sort delta now order retire_now app)"
  by (simp add: Tick_def CheckPlayerRetirement_bags_ok GenerateLootItems_bags_ok UpdateGameState_bags_ok)

lemma JoinGame_bags_ok:
  "bags_ok app \<Longrightarrow> bags_ok (snd (JoinGame user_name mid new_token random_position now app))"
  by (auto simp: bags_ok_def JoinGame_def Let_def FindMap_def dog_ok_def cap_of_def new_dog_def
        split: option.splits)

lemma SetPlayerAction_bags_ok:
  "bags_ok app \<Longrightarrow> bags_ok (snd (SetPlayerAction player move now app))"
  by (auto simp: bags_ok_def SetPlayerAction_def Let_def dog_ok_def list_all_length nth_list_update
        FindDog_def split: option.splits if_splits)

lemma reachable_bags_ok: "reachable app \<Longrightarrow> bags_ok app"
  by (induction rule: reachable.induct)
     (simp_all add: JoinGame_bags_ok SetPlayerAction_bags_ok Tick_bags_ok, simp add: bags_ok_def)

text \<open>
  Claim C5. In every state the server can reach (after every join, every set-action call
  and every tick), each dog's map resolves, the dog carries that map's bag capacity, and
  the number of items in its bag is at most that capacity.
\<close>

theorem bag_within_capacity:
  "reachable app \<Longrightarrow>
   list_all (\<lambda>d. \<exists>m. FindMap app (dog_map_id d) = Some m \<and>
                       bag_capacity d = map_bag_capacity m \<and>
                       length (bag d) \<le> map_bag_capacity m)
     (dogs (game app))"
proof -
  assume "reachable app"
  then have "bags_ok app" by (rule reachable_bags_ok)
  then show ?thesis
    by (auto simp: bags_ok_def dog_ok_def cap_of_def FindMap_def list_all_iff)
qed

lemma scenario_full_tick_state:
  "map (\<lambda>d. (dog_position d, bag d, score d)) (dogs (game scenario_full_tick)) =
     [(\<lparr>pos_x = 10, pos_y = 0\<rparr>, [], 10)] \<and>
   map (\<lambda>m. map loot_item_id (loot_items m)) (maps (game scenario_full_tick)) =
     [[0, 1, 2, 3, 4]]"
  by (simp add: scenario_full_tick_def scenario_defs op_defs tick_defs eval_facts)

lemma scenario_half_tick_dogs:
  "dogs (game scenario_half_tick) =
     [\<lparr>dog_ident = 0, dog_name = ''A'', dog_map_id = ''map1'',
       dog_position = \<lparr>pos_x = 5, pos_y = 0\<rparr>, dog_velocity = \<lparr>vx = 10, vy = 0\<rparr>,
       dog_direction = East,
       bag = [\<lparr>bag_item_id = 7, bag_item_type = 2, bag_item_value = 10\<rparr>],
       bag_capacity = 3, score = 0\<rparr>]"
  by (simp add: scenario_half_tick_def scenario_defs op_defs tick_defs eval_facts)

theorem bag_within_capacity_witness:
  "reachable scenario_half_tick \<and>
   map (\<lambda>d. (length (bag d), bag_capacity d)) (dogs (game scenario_half_tick)) = [(1, 3)] \<and>
   list_all (\<lambda>d. \<exists>m. FindMap scenario_half_tick (dog_map_id d) = Some m \<and>
                       bag_capacity d = map_bag_capacity m \<and>
                       length (bag d) \<le> map_bag_capacity m)
     (dogs (game scenario_half_tick))"
proof -
  have r: "reachable scenario_half_tick"
    unfolding scenario_half_tick_def
    by (rule reachable.tick[OF scenario_running_reachable stable_sort_in_contract])
  from bag_within_capacity[OF r] r show ?thesis
    by (simp add: scenario_half_tick_dogs)
qed

subsection \<open>What the collision events do\<close>




















lemmas road_things = road_app_def road_map_def stocked_map_def standing_dog_def plaza_def
  example_app_def example_game_def origin_def


text \<open>
  Claim C4 as stated has the score grow by the summed values of the items returned. On
  the map stocked with items of value 0.5 the dog picks up the first item at parameter
  97/200 and returns it at the office at parameter 229/400 in the same tick: the item has
  left the map, the bag is empty again, and the score is still 0, not 0.5.
\<close>

theorem fractional_value_counterexample:
  "map loot_value (loot_items half_map) = [1 / 2, 1 / 2, 1 / 2] \<and>
   map (\<lambda>d. (dog_position d, bag d, score d)) (dogs (game half_running)) =
     [(\<lparr>pos_x = 0, pos_y = 10\<rparr>, [], 0)] \<and>
   map (\<lambda>ev. (event_type ev, timestamp ev, item_id ev))
     (collect_events (hd (dogs (game half_running))) half_map
        \<lparr>pos_x = 0, pos_y = 10\<rparr> \<lparr>pos_x = 20, pos_y = 10\<rparr>) =
     [(ITEM_PICKUP, 97 / 200, Some 0), (OFFICE_RETURN, 229 / 400, None)] \<and>
   map (\<lambda>d. (dog_position d, bag d, score d)) (dogs (game half_tick)) =
     [(\<lparr>pos_x = 20, pos_y = 10\<rparr>, [], 0)] \<and>
   map (\<lambda>m. map loot_item_id (loot_items m)) (maps (game half_tick)) = [[1, 2]] \<and>
   apply_event (return_event standing_dog 0)
       (standing_dog\<lparr>bag := [\<lparr>bag_item_id = 0, bag_item_type = 1, bag_item_value = 1 / 2\<rparr>]\<rparr>)
       half_map =
     (standing_dog, half_map) \<and>
   real_of_int (score (hd (dogs (game half_tick))) - score (hd (dogs (game half_running)))) \<noteq>
     sum_list (map bag_item_value [\<lparr>bag_item_id = 0, bag_item_type = 1, bag_item_value = 1 / 2\<rparr>])"
proof -
  have a: "map loot_value (loot_items half_map) = [1 / 2, 1 / 2, 1 / 2]"
    by (simp add: half_map_def)
  have b: "dogs (game half_running) =
     [\<lparr>dog_ident = 0, dog_name = ''A'', dog_map_id = ''map1'',
       dog_position = \<lparr>pos_x = 0, pos_y = 10\<rparr>, dog_velocity = \<lparr>vx = 1, vy = 0\<rparr>,
       dog_direction = East, bag = [], bag_capacity = 3, score = 0\<rparr>]"
    by (simp add: half_running_def half_app_def half_map_def example_app_def example_game_def
          player_A_def origin_def op_defs)
  have c: "map (\<lambda>ev. (event_type ev, timestamp ev, item_id ev))
     (collect_events (hd (dogs (game half_running))) half_map
        \<lparr>pos_x = 0, pos_y = 10\<rparr> \<lparr>pos_x = 20, pos_y = 10\<rparr>) =
     [(ITEM_PICKUP, 97 / 200, Some 0), (OFFICE_RETURN, 229 / 400, None)]"
    by (simp add: b half_map_def tick_defs eval_facts)
  have d: "map (\<lambda>d. (dog_position d, bag d, score d)) (dogs (game half_tick)) =
     [(\<lparr>pos_x = 20, pos_y = 10\<rparr>, [], 0)]"
    "map (\<lambda>m. map loot_item_id (loot_items m)) (maps (game half_tick)) = [[1, 2]]"
    by (simp_all add: half_tick_def half_running_def half_app_def half_map_def example_app_def
          example_game_def player_A_def origin_def op_defs tick_defs eval_facts)
  have e: "apply_event (return_event standing_dog 0)
       (standing_dog\<lparr>bag := [\<lparr>bag_item_id = 0, bag_item_type = 1, bag_item_value = 1 / 2\<rparr>]\<rparr>)
       half_map =
     (standing_dog, half_map)"
    by (simp add: apply_event_def return_event_def AddScore_def ClearBag_def static_cast_int_def
          standing_dog_def)
  from d(1) have s1: "score (hd (dogs (game half_tick))) = 0"
    by (cases "dogs (game half_tick)") auto
  from b have s0: "score (hd (dogs (game half_running))) = 0" by simp
  from a b c d e s0 s1 show ?thesis by simp
qed

subsection \<open>The order in which the events of a dog are applied\<close>




subsection \<open>Loot generation\<close>

lemma spawn_five_eq:
  "spawn_five m n =
     (m\<lparr>loot_items := loot_items m @ map (\<lambda>i. generated_item i (n + of_nat i)) [0..<5]\<rparr>, n + 5)"
  by (simp add: spawn_five_def upt_5 AddLootItem_def add.assoc)

lemma GenerateLootItems_loop_length: "length (fst (GenerateLootItems_loop ms n)) = length ms"
  by (induction ms arbitrary: n) (simp_all add: case_prod_beta)

lemma GenerateLootItems_loop_counter:
  "snd (GenerateLootItems_loop ms n) = n + of_nat (5 * empties ms)"
  by (induction ms arbitrary: n) (simp_all add: spawn_five_eq empties_def case_prod_beta)

lemma GenerateLootItems_loop_nth:
  "j < length ms \<Longrightarrow>
   fst (GenerateLootItems_loop ms n) ! j =
     (if loot_items (ms ! j) = []
      then (ms ! j)\<lparr>loot_items :=
             map (\<lambda>i. generated_item i (n + of_nat (5 * empties (take j ms) + i))) [0..<5]\<rparr>
      else ms ! j)"
proof (induction ms arbitrary: n j)
  case Nil
  then show ?case by simp
next
  case (Cons m ms)
  show ?case
  proof (cases j)
    case 0
    then show ?thesis by (simp add: spawn_five_eq empties_def case_prod_beta)
  next
    case (Suc k)
    with Cons.prems have k: "k < length ms" by simp
    show ?thesis
    proof (cases "loot_items m = []")
      case True
      with Suc Cons.IH[OF k, of "n + 5"] show ?thesis
        by (simp add: spawn_five_eq empties_def algebra_simps case_prod_beta)
    next
      case False
      with Suc Cons.IH[OF k, of n] show ?thesis
        by (simp add: empties_def case_prod_beta)
    qed
  qed
qed

lemma RetirePlayer_maps:
  "maps (game (RetirePlayer pid now app)) = maps (game app) \<and>
   next_loot_id (RetirePlayer pid now app) = next_loot_id app"
  by (simp add: RetirePlayer_def Let_def split: option.splits)

lemma fold_RetirePlayer_maps:
  "maps (game (fold (\<lambda>pid a. RetirePlayer pid (retire_now pid) a) pids app)) = maps (game app) \<and>
   next_loot_id (fold (\<lambda>pid a. RetirePlayer pid (retire_now pid) a) pids app) = next_loot_id app"
  by (induction pids arbitrary: app) (simp_all add: RetirePlayer_maps)

lemma CheckPlayerRetirement_scan_loot_id:
  "next_loot_id (fst (CheckPlayerRetirement_scan now order app acc)) = next_loot_id app"
  by (induction order arbitrary: app acc) (simp_all add: Let_def split: option.splits)

lemma CheckPlayerRetirement_maps:
  "maps (game (CheckPlayerRetirement now order retire_now app)) = maps (game app) \<and>
   next_loot_id (CheckPlayerRetirement now order retire_now app) = next_loot_id app"
  using CheckPlayerRetirement_scan_game[of now order app "[]"]
    CheckPlayerRetirement_scan_loot_id[of now order app "[]"]
  by (simp add: CheckPlayerRetirement_def fold_RetirePlayer_maps case_prod_beta)

lemma GenerateLootItems_loop_nonempty:
  "list_all (\<lambda>m. loot_items m \<noteq> []) (fst (GenerateLootItems_loop ms n))"
  by (induction ms arbitrary: n) (simp_all add: spawn_five_eq upt_5 case_prod_beta)

lemma GenerateLootItems_nth:
  assumes "j < length (maps (game app))"
  shows "maps (game (GenerateLootItems app)) ! j =
        (if loot_items (maps (game app) ! j) = []
         then (maps (game app) ! j)\<lparr>loot_items :=
                map (\<lambda>i. \<lparr>loot_item_id =
                             next_loot_id app +
                               of_nat (5 * empties (take j (maps (game app))) + i),
                           loot_type = 1, loot_value = 10,
                           loot_position = \<lparr>pos_x = 10 + real i * 5, pos_y = 10\<rparr>\<rparr>)
                  [0..<5]\<rparr>
         else maps (game app) ! j)"
  using GenerateLootItems_loop_nth[OF assms, of "next_loot_id app"]
  by (simp add: GenerateLootItems_def generated_item_def case_prod_beta)

lemma GenerateLootItems_counter:
  "next_loot_id (GenerateLootItems app) =
     next_loot_id app + of_nat (5 * empties (maps (game app)))"
  using GenerateLootItems_loop_counter[of "maps (game app)" "next_loot_id app"]
  by (simp add: GenerateLootItems_def case_prod_beta)

lemma unat_counter:
  fixes n :: "32 word"
  assumes "unat n + k < 2 ^ 31"
  shows "unat (n + of_nat k) = unat n + k"
proof -
  from assms have k: "k < 2 ^ 32" by simp
  then have "unat (of_nat k :: 32 word) = k" by (simp add: unat_of_nat)
  moreover from assms have "unat n + k < 2 ^ LENGTH(32)" by simp
  ultimately show ?thesis by (simp add: unat_add_lem[THEN iffD1])
qed

lemma empties_append: "empties (xs @ ys) = empties xs + empties ys"
  by (simp add: empties_def)

lemma empties_take_mono: "j \<le> j' \<Longrightarrow> empties (take j ms) \<le> empties (take j' ms)"
proof -
  assume "j \<le> j'"
  then have "take j' ms = take j ms @ take (j' - j) (drop j ms)"
    by (metis le_add_diff_inverse take_add)
  then show ?thesis by (simp add: empties_append)
qed

lemma empties_take_Suc:
  "j < length ms \<Longrightarrow> loot_items (ms ! j) = [] \<Longrightarrow>
   empties (take (Suc j) ms) = Suc (empties (take j ms))"
  by (simp add: take_Suc_conv_app_nth empties_append) (simp add: empties_def)

lemma empties_take_less:
  assumes "j < length ms" "loot_items (ms ! j) = []"
  shows "empties (take j ms) < empties ms"
proof -
  from empties_take_mono[of "Suc j" "length ms" ms] assms(1)
  have "empties (take (Suc j) ms) \<le> empties ms" by simp
  with empties_take_Suc[OF assms] show ?thesis by simp
qed

lemma empties_take_strict:
  assumes "j < j'" "j < length ms" "loot_items (ms ! j) = []"
  shows "empties (take j ms) < empties (take j' ms)"
proof -
  from assms(1) have "Suc j \<le> j'" by simp
  from empties_take_mono[OF this, of ms] empties_take_Suc[OF assms(2,3)] show ?thesis by simp
qed

lemma issued_id_eq:
  assumes "j < length (maps (game app))" "loot_items (maps (game app) ! j) = []" "i < 5"
  shows "issued_id app j i =
           next_loot_id app + of_nat (5 * empties (take j (maps (game app))) + i)"
  using GenerateLootItems_nth[OF assms(1)] assms(2,3) by (simp add: issued_id_def)

lemma issued_id_unat:
  assumes "j < length (maps (game app))" "loot_items (maps (game app) ! j) = []" "i < 5"
    and "unat (next_loot_id app) + 5 * empties (maps (game app)) < 2 ^ 31"
  shows "unat (issued_id app j i) =
           unat (next_loot_id app) + (5 * empties (take j (maps (game app))) + i)"
    and "unat (issued_id app j i) < unat (next_loot_id app) + 5 * empties (maps (game app))"
proof -
  from empties_take_less[OF assms(1,2)] assms(3)
  have b: "5 * empties (take j (maps (game app))) + i < 5 * empties (maps (game app))" by simp
  with assms(4) have "unat (next_loot_id app) + (5 * empties (take j (maps (game app))) + i) < 2 ^ 31"
    by simp
  from unat_counter[OF this] issued_id_eq[OF assms(1,2,3)]
  show u: "unat (issued_id app j i) =
           unat (next_loot_id app) + (5 * empties (take j (maps (game app))) + i)"
    by simp
  from u b show "unat (issued_id app j i) < unat (next_loot_id app) + 5 * empties (maps (game app))"
    by simp
qed

lemma issued_ids_differ:
  assumes "j < length (maps (game app))" "loot_items (maps (game app) ! j) = []" "i < 5"
    and "j' < length (maps (game app))" "loot_items (maps (game app) ! j') = []" "i' < 5"
    and "unat (next_loot_id app) + 5 * empties (maps (game app)) < 2 ^ 31"
    and "(j, i) \<noteq> (j', i')"
  shows "issued_id app j i \<noteq> issued_id app j' i'"
proof -
  let ?e = "\<lambda>j. empties (take j (maps (game app)))"
  have "5 * ?e j + i \<noteq> 5 * ?e j' + i'"
  proof (cases "j = j'")
    case True
    with assms(8) show ?thesis by simp
  next
    case False
    then consider "j < j'" | "j' < j" by linarith
    then show ?thesis
    proof cases
      case 1
      from empties_take_strict[OF 1 assms(1,2)] assms(3) show ?thesis by simp
    next
      case 2
      from empties_take_strict[OF 2 assms(4,5)] assms(6) show ?thesis by simp
    qed
  qed
  with issued_id_unat(1)[OF assms(1,2,3,7)] issued_id_unat(1)[OF assms(4,5,6,7)]
  have "unat (issued_id app j i) \<noteq> unat (issued_id app j' i')" by simp
  then show ?thesis by auto
qed

lemma issued_ids_fresh:
  assumes "unat (next_loot_id app) + 5 * empties (maps (game app)) < 2 ^ 31"
  shows "unat (next_loot_id (GenerateLootItems app)) =
           unat (next_loot_id app) + 5 * empties (maps (game app)) \<and>
         (\<forall>j i j' i'.
            j < length (maps (game app)) \<and> loot_items (maps (game app) ! j) = [] \<and> i < 5 \<and>
            j' < length (maps (game app)) \<and> loot_items (maps (game app) ! j') = [] \<and> i' < 5 \<longrightarrow>
              unat (next_loot_id app) \<le> unat (issued_id app j i) \<and>
              unat (issued_id app j i) < unat (next_loot_id (GenerateLootItems app)) \<and>
              ((j, i) \<noteq> (j', i') \<longrightarrow> issued_id app j i \<noteq> issued_id app j' i'))"
proof -
  from unat_counter[OF assms] have n: "unat (next_loot_id (GenerateLootItems app)) =
      unat (next_loot_id app) + 5 * empties (maps (game app))"
    by (simp add: GenerateLootItems_counter)
  have "unat (next_loot_id app) \<le> unat (issued_id app j i) \<and>
        unat (issued_id app j i) < unat (next_loot_id (GenerateLootItems app)) \<and>
        ((j, i) \<noteq> (j', i') \<longrightarrow> issued_id app j i \<noteq> issued_id app j' i')"
    if "j < length (maps (game app))" "loot_items (maps (game app) ! j) = []" "i < 5"
      "j' < length (maps (game app))" "loot_items (maps (game app) ! j') = []" "i' < 5"
    for j i j' i'
    using issued_id_unat[OF that(1,2,3) assms] issued_ids_differ[OF that assms] n by simp
  with n show ?thesis by blast
qed

text \<open>
  Claim C6, as amended. \<^verbatim>\<open>GenerateLootItems\<close> leaves every map that has loot as
  it is and gives every map without loot exactly five items: item \<open>i\<close> (from 0 to 4) at
  the fixed position (10 + 5 i, 10), whatever the map's roads are, with loot type 1 and
  worth 10. The ids are consecutive values of the one 32-bit counter shared by all maps,
  which each item advances by one: the map at position \<open>j\<close> starts at the counter's value
  plus five times the number of empty maps before it. A tick runs the generation after
  the dogs have moved and before the retirement check, which touches neither maps nor
  counter, so after every tick no map is without loot. While the counter stays within the
  range of \<^verbatim>\<open>int\<close>, the ids issued in one run are distinct, not below the
  counter's value before the run and below its value after it, so the generator never
  issues an id twice.
\<close>

theorem loot_generation:
  "length (maps (game (GenerateLootItems app))) = length (maps (game app)) \<and>
   next_loot_id (GenerateLootItems app) =
     next_loot_id app + of_nat (5 * empties (maps (game app))) \<and>
   (\<forall>j < length (maps (game app)).
      maps (game (GenerateLootItems app)) ! j =
        (if loot_items (maps (game app) ! j) = []
         then (maps (game app) ! j)\<lparr>loot_items :=
                map (\<lambda>i. \<lparr>loot_item_id =
                             next_loot_id app +
                               of_nat (5 * empties (take j (maps (game app))) + i),
                           loot_type = 1, loot_value = 10,
                           loot_position = \<lparr>pos_x = 10 + real i * 5, pos_y = 10\<rparr>\<rparr>)
                  [0..<5]\<rparr>
         else maps (game app) ! j)) \<and>
   maps (game (Tick calc std_sort delta now order retire_now app)) =
     maps (game (GenerateLootItems (UpdateGameState calc std_sort (real_of_int delta / 1000) app))) \<and>
   next_loot_id (Tick calc std_sort delta now order retire_now app) =
     next_loot_id (GenerateLootItems (UpdateGameState calc std_sort (real_of_int delta / 1000) app)) \<and>
   list_all (\<lambda>m. loot_items m \<noteq> []) (maps (game (Tick calc std_sort delta now order retire_now app))) \<and>
   (unat (next_loot_id app) + 5 * empties (maps (game app)) < 2 ^ 31 \<longrightarrow>
      unat (next_loot_id (GenerateLootItems app)) =
        unat (next_loot_id app) + 5 * empties (maps (game app)) \<and>
      (\<forall>j i j' i'.
         j < length (maps (game app)) \<and> loot_items (maps (game app) ! j) = [] \<and> i < 5 \<and>
         j' < length (maps (game app)) \<and> loot_items (maps (game app) ! j') = [] \<and> i' < 5 \<longrightarrow>
           unat (next_loot_id app) \<le> unat (issued_id app j i) \<and>
           unat (issued_id app j i) < unat (next_loot_id (GenerateLootItems app)) \<and>
           ((j, i) \<noteq> (j', i') \<longrightarrow> issued_id app j i \<noteq> issued_id app j' i')))"
proof -
  have a: "length (maps (game (GenerateLootItems app))) = length (maps (game app))"
    using GenerateLootItems_loop_length[of "maps (game app)" "next_loot_id app"]
    by (simp add: GenerateLootItems_def case_prod_beta)
  note b = GenerateLootItems_counter[of app]
  note c = GenerateLootItems_nth[of _ app]
  let ?u = "UpdateGameState calc std_sort (real_of_int delta / 1000) app"
  have d: "maps (game (Tick calc std_sort delta now order retire_now app)) =
      maps (game (GenerateLootItems ?u))"
    "next_loot_id (Tick calc std_sort delta now order retire_now app) =
      next_loot_id (GenerateLootItems ?u)"
    by (simp_all add: Tick_def CheckPlayerRetirement_maps)
  have "list_all (\<lambda>m. loot_items m \<noteq> []) (maps (game (GenerateLootItems ?u)))"
    using GenerateLootItems_loop_nonempty[of "maps (game ?u)" "next_loot_id ?u"]
    by (simp add: GenerateLootItems_def case_prod_beta)
  with d have e: "list_all (\<lambda>m. loot_items m \<noteq> [])
      (maps (game (Tick calc std_sort delta now order retire_now app)))" by simp
  note f = issued_ids_fresh[of app]
  from a b c d e f show ?thesis by blast
qed

theorem loot_generation_witness:
  "0 < length (maps (game example_app)) \<and>
   loot_items (maps (game example_app) ! 0) = [] \<and>
   maps (game (GenerateLootItems example_app)) ! 0 =
     example_map\<lparr>loot_items :=
       [\<lparr>loot_item_id = 0, loot_type = 1, loot_value = 10,
         loot_position = \<lparr>pos_x = 10, pos_y = 10\<rparr>\<rparr>,
        \<lparr>loot_item_id = 1, loot_type = 1, loot_value = 10,
         loot_position = \<lparr>pos_x = 15, pos_y = 10\<rparr>\<rparr>,
        \<lparr>loot_item_id = 2, loot_type = 1, loot_value = 10,
         loot_position = \<lparr>pos_x = 20, pos_y = 10\<rparr>\<rparr>,
        \<lparr>loot_item_id = 3, loot_type = 1, loot_value = 10,
         loot_position = \<lparr>pos_x = 25, pos_y = 10\<rparr>\<rparr>,
        \<lparr>loot_item_id = 4, loot_type = 1, loot_value = 10,
         loot_position = \<lparr>pos_x = 30, pos_y = 10\<rparr>\<rparr>]\<rparr> \<and>
   next_loot_id (GenerateLootItems example_app) = 5 \<and>
   loot_items (maps (game scenario_app) ! 0) \<noteq> [] \<and>
   maps (game (GenerateLootItems scenario_app)) ! 0 = scenario_map \<and>
   map (\<lambda>m. map loot_item_id (loot_items m)) (maps (game scenario_full_tick)) =
     [[0, 1, 2, 3, 4]] \<and>
   list_all (\<lambda>m. loot_items m \<noteq> []) (maps (game scenario_full_tick)) \<and>
   unat (next_loot_id example_app) + 5 * empties (maps (game example_app)) < 2 ^ 31 \<and>
   unat (issued_id example_app 0 3) < unat (next_loot_id (GenerateLootItems example_app)) \<and>
   issued_id example_app 0 3 \<noteq> issued_id example_app 0 4"
proof -
  have l: "0 < length (maps (game example_app))" "loot_items (maps (game example_app) ! 0) = []"
    "maps (game example_app) ! 0 = example_map" "next_loot_id example_app = 0"
    "empties (maps (game example_app)) = 1"
    by (simp_all add: example_app_def example_game_def example_map_def empties_def)
  note t = loot_generation[of example_app]
  from t have "\<forall>j < length (maps (game example_app)).
      maps (game (GenerateLootItems example_app)) ! j =
        (if loot_items (maps (game example_app) ! j) = []
         then (maps (game example_app) ! j)\<lparr>loot_items :=
                map (\<lambda>i. \<lparr>loot_item_id =
                             next_loot_id example_app +
                               of_nat (5 * empties (take j (maps (game example_app))) + i),
                           loot_type = 1, loot_value = 10,
                           loot_position = \<lparr>pos_x = 10 + real i * 5, pos_y = 10\<rparr>\<rparr>)
                  [0..<5]\<rparr>
         else maps (game example_app) ! j)"
    by blast
  with l have a: "maps (game (GenerateLootItems example_app)) ! 0 =
      example_map\<lparr>loot_items :=
        map (\<lambda>i. \<lparr>loot_item_id = of_nat (5 * empties [] + i), loot_type = 1, loot_value = 10,
                   loot_position = \<lparr>pos_x = 10 + real i * 5, pos_y = 10\<rparr>\<rparr>) [0..<5]\<rparr>"
    by simp
  from t l have b: "next_loot_id (GenerateLootItems example_app) = 5" by simp
  have m: "0 < length (maps (game scenario_app))" "loot_items (maps (game scenario_app) ! 0) \<noteq> []"
    "maps (game scenario_app) ! 0 = scenario_map"
    by (simp_all add: scenario_app_def example_app_def example_game_def scenario_map_def)
  from loot_generation[of scenario_app] m
  have c: "maps (game (GenerateLootItems scenario_app)) ! 0 = scenario_map" by simp
  have d: "list_all (\<lambda>m. loot_items m \<noteq> []) (maps (game scenario_full_tick))"
    unfolding scenario_full_tick_def
    using loot_generation[of scenario_running free_movement "sort_key timestamp" 1000
        1000000000 "[0]" "\<lambda>_. 1000000000"]
    by blast
  have u: "unat (next_loot_id example_app) + 5 * empties (maps (game example_app)) < 2 ^ 31"
    using l by simp
  from t u have "\<forall>j i j' i'.
         j < length (maps (game example_app)) \<and> loot_items (maps (game example_app) ! j) = [] \<and>
         i < 5 \<and>
         j' < length (maps (game example_app)) \<and> loot_items (maps (game example_app) ! j') = [] \<and>
         i' < 5 \<longrightarrow>
           unat (next_loot_id example_app) \<le> unat (issued_id example_app j i) \<and>
           unat (issued_id example_app j i) < unat (next_loot_id (GenerateLootItems example_app)) \<and>
           ((j, i) \<noteq> (j', i') \<longrightarrow> issued_id example_app j i \<noteq> issued_id example_app j' i')"
    by blast
  from this[rule_format, of 0 3 0 4] l
  have v: "unat (issued_id example_app 0 3) < unat (next_loot_id (GenerateLootItems example_app))"
    "issued_id example_app 0 3 \<noteq> issued_id example_app 0 4"
    by simp_all
  from l m a b c d u v scenario_full_tick_state show ?thesis by (simp add: upt_5 empties_def)
qed

text \<open>
  Claim C6 as stated puts the new items along the map's first road. On the example map,
  whose only road runs from (0,0) to (10,0), the five items land at height 10, and none
  of them lies on the strip of that road.
\<close>

theorem loot_off_the_first_road_counterexample:
  "roads (hd (maps (game example_app))) =
     [\<lparr>road_kind = HORIZONTAL, road_start = \<lparr>pt_x = 0, pt_y = 0\<rparr>, road_end = 10\<rparr>] \<and>
   loot_items (hd (maps (game example_app))) = [] \<and>
   map loot_position (loot_items (hd (maps (game (GenerateLootItems example_app))))) =
     [\<lparr>pos_x = 10, pos_y = 10\<rparr>, \<lparr>pos_x = 15, pos_y = 10\<rparr>, \<lparr>pos_x = 20, pos_y = 10\<rparr>,
      \<lparr>pos_x = 25, pos_y = 10\<rparr>, \<lparr>pos_x = 30, pos_y = 10\<rparr>] \<and>
   filter (on_road (hd (roads (hd (maps (game example_app))))))
     (map loot_position (loot_items (hd (maps (game (GenerateLootItems example_app)))))) = []"
  by (simp add: example_app_def example_game_def example_map_def tick_defs eval_facts on_road_def)

subsection \<open>Steering a dog\<close>

lemma decode_move_known: "(decode_move move speed facing \<noteq> None) = known_move move"
  by (simp add: decode_move_def known_move_def)

text \<open>
  Claim C7, as amended. Given that the player's dog and map resolve,
  \<^verbatim>\<open>SetPlayerAction\<close> returns true exactly for the moves L, R, U, D and the empty
  string, and changes nothing for any other string. An accepted move changes only the
  velocity and facing of the dog found: L, R, U, D give the map's dog speed in that
  direction with facing West, East, North, South; the empty string gives velocity zero and
  keeps the facing. The idle-start time follows the new velocity, not the command, and
  only for a player whose metadata exists and is not marked retired: a move that leaves
  the dog with a non-zero velocity clears it; the stop command, or any move on a map whose
  dog speed is 0, sets it to now unless it is already set.
\<close>

theorem SetPlayerAction_effects:
  assumes "FindDog app (player_dog_id player) = Some i"
    and "FindMap app (player_map_id player) = Some m"
  shows "fst (SetPlayerAction player move now app) = known_move move \<and>
    (\<not> known_move move \<longrightarrow> snd (SetPlayerAction player move now app) = app) \<and>
    (known_move move \<longrightarrow>
       (\<exists>v f. dogs (game (snd (SetPlayerAction player move now app))) =
                 (dogs (game app))[i := (dogs (game app) ! i)\<lparr>dog_velocity := v, dog_direction := f\<rparr>] \<and>
              (move = ''L'' \<longrightarrow> v = \<lparr>vx = - dog_speed m, vy = 0\<rparr> \<and> f = West) \<and>
              (move = ''R'' \<longrightarrow> v = \<lparr>vx = dog_speed m, vy = 0\<rparr> \<and> f = East) \<and>
              (move = ''U'' \<longrightarrow> v = \<lparr>vx = 0, vy = - dog_speed m\<rparr> \<and> f = North) \<and>
              (move = ''D'' \<longrightarrow> v = \<lparr>vx = 0, vy = dog_speed m\<rparr> \<and> f = South) \<and>
              (move = [] \<longrightarrow> v = \<lparr>vx = 0, vy = 0\<rparr> \<and> f = dog_direction (dogs (game app) ! i)))) \<and>
    (known_move move \<and> player_metadata app (player_ident player) = Some md \<and> \<not> is_retired md \<longrightarrow>
       player_metadata (snd (SetPlayerAction player move now app)) =
         (player_metadata app)(player_ident player \<mapsto>
            md\<lparr>idle_start_time :=
                 (if move \<noteq> [] \<and> dog_speed m \<noteq> 0 then None
                  else case idle_start_time md of None \<Rightarrow> Some now | Some t \<Rightarrow> Some t)\<rparr>)) \<and>
    (player_metadata app (player_ident player) = None \<or>
     (player_metadata app (player_ident player) = Some md \<and> is_retired md) \<longrightarrow>
       player_metadata (snd (SetPlayerAction player move now app)) = player_metadata app)"
proof -
  let ?speed = "dog_speed m"
  let ?dog = "dogs (game app) ! i"
  from assms have sp: "GetDogSpeedForMap app (player_map_id player) = ?speed"
    by (simp add: GetDogSpeedForMap_def)
  show ?thesis
  proof (cases "decode_move move ?speed (dog_direction ?dog)")
    case None
    with decode_move_known[of move ?speed "dog_direction ?dog"] have "\<not> known_move move" by simp
    with None assms sp show ?thesis by (simp add: SetPlayerAction_def)
  next
    case (Some vf)
    obtain v f where vf: "vf = (v, f)" by (cases vf)
    from Some decode_move_known[of move ?speed "dog_direction ?dog"] have k: "known_move move"
      by simp
    from Some vf assms sp have r: "SetPlayerAction player move now app =
        (True, app\<lparr>game := (game app)\<lparr>dogs := (dogs (game app))
                      [i := ?dog\<lparr>dog_velocity := v, dog_direction := f\<rparr>]\<rparr>,
                  player_metadata := touch_idle (player_ident player) v now (player_metadata app)\<rparr>)"
      by (simp add: SetPlayerAction_def)
    from Some vf have tab:
      "(move = ''L'' \<longrightarrow> v = \<lparr>vx = - ?speed, vy = 0\<rparr> \<and> f = West) \<and>
       (move = ''R'' \<longrightarrow> v = \<lparr>vx = ?speed, vy = 0\<rparr> \<and> f = East) \<and>
       (move = ''U'' \<longrightarrow> v = \<lparr>vx = 0, vy = - ?speed\<rparr> \<and> f = North) \<and>
       (move = ''D'' \<longrightarrow> v = \<lparr>vx = 0, vy = ?speed\<rparr> \<and> f = South) \<and>
       (move = [] \<longrightarrow> v = \<lparr>vx = 0, vy = 0\<rparr> \<and> f = dog_direction ?dog)"
      by (auto simp: decode_move_def split: if_splits)
    from k tab have z: "(vx v = 0 \<and> vy v = 0) = (\<not> (move \<noteq> [] \<and> ?speed \<noteq> 0))"
      by (auto simp: known_move_def)
    have meta1: "touch_idle (player_ident player) v now (player_metadata app) =
         (player_metadata app)(player_ident player \<mapsto>
            md\<lparr>idle_start_time :=
                 (if move \<noteq> [] \<and> ?speed \<noteq> 0 then None
                  else case idle_start_time md of None \<Rightarrow> Some now | Some t \<Rightarrow> Some t)\<rparr>)"
      if "player_metadata app (player_ident player) = Some md" "\<not> is_retired md"
      using that z by (auto simp: touch_idle_def fun_eq_iff split: option.splits)
    have meta2: "touch_idle (player_ident player) v now (player_metadata app) = player_metadata app"
      if "player_metadata app (player_ident player) = None \<or>
          (player_metadata app (player_ident player) = Some md \<and> is_retired md)"
      using that by (auto simp: touch_idle_def)
    from r k tab meta1 meta2 show ?thesis by auto
  qed
qed

theorem SetPlayerAction_effects_witness:
  "FindDog scenario_joined (player_dog_id player_A) = Some 0 \<and>
   FindMap scenario_joined (player_map_id player_A) = Some scenario_map \<and>
   known_move ''R'' \<and> \<not> known_move ''jump'' \<and>
   fst (SetPlayerAction player_A ''R'' 5 scenario_joined) = True \<and>
   fst (SetPlayerAction player_A ''jump'' 5 scenario_joined) = False \<and>
   snd (SetPlayerAction player_A ''jump'' 5 scenario_joined) = scenario_joined \<and>
   dogs (game (snd (SetPlayerAction player_A ''R'' 5 scenario_joined))) = [scenario_dog] \<and>
   player_metadata (snd (SetPlayerAction player_A [] 5 scenario_joined)) 0 =
     Some \<lparr>join_time = 0, idle_start_time = Some 5, is_retired = False\<rparr> \<and>
   player_metadata (snd (SetPlayerAction player_A ''R'' 9
       (snd (SetPlayerAction player_A [] 5 scenario_joined)))) 0 =
     Some \<lparr>join_time = 0, idle_start_time = None, is_retired = False\<rparr> \<and>
   player_metadata scenario_joined 9 = None \<and>
   player_metadata (snd (SetPlayerAction (player_A\<lparr>player_ident := 9\<rparr>) ''R'' 5 scenario_joined)) =
     player_metadata scenario_joined"
proof -
  have h: "FindDog scenario_joined (player_dog_id player_A) = Some 0"
    "FindMap scenario_joined (player_map_id player_A) = Some scenario_map"
    by (simp_all add: scenario_defs op_defs)
  have k: "known_move ''R''" "\<not> known_move ''jump''" by (simp_all add: known_move_def)
  note t = SetPlayerAction_effects[OF h]
  from t[of "''R''" 5] k have a: "fst (SetPlayerAction player_A ''R'' 5 scenario_joined) = True"
    by simp
  from t[of "''jump''" 5] k have b: "fst (SetPlayerAction player_A ''jump'' 5 scenario_joined) = False"
    "snd (SetPlayerAction player_A ''jump'' 5 scenario_joined) = scenario_joined"
    by simp_all
  have c: "dogs (game (snd (SetPlayerAction player_A ''R'' 5 scenario_joined))) = [scenario_dog]"
    by (simp add: scenario_defs op_defs scenario_dog_def)
  have d: "player_metadata (snd (SetPlayerAction player_A [] 5 scenario_joined)) 0 =
     Some \<lparr>join_time = 0, idle_start_time = Some 5, is_retired = False\<rparr>"
    by (simp add: scenario_defs op_defs)
  have e: "player_metadata (snd (SetPlayerAction player_A ''R'' 9
       (snd (SetPlayerAction player_A [] 5 scenario_joined)))) 0 =
     Some \<lparr>join_time = 0, idle_start_time = None, is_retired = False\<rparr>"
    by (simp add: scenario_defs op_defs)
  have n: "player_metadata scenario_joined 9 = None"
    by (simp add: scenario_defs op_defs)
  from SetPlayerAction_effects[of scenario_joined "player_A\<lparr>player_ident := 9\<rparr>" 0 scenario_map
      "''R''" 5] h n
  have f: "player_metadata (snd (SetPlayerAction (player_A\<lparr>player_ident := 9\<rparr>) ''R'' 5
      scenario_joined)) = player_metadata scenario_joined"
    by simp
  from h k a b c d e f n show ?thesis by simp
qed

text \<open>
  Claim C7 as stated has every movement command clear the idle-start time. On a map whose
  dog speed is 0 the command L leaves the velocity at zero, and the idle-start time, unset
  before the call, is set to the time of the call.
\<close>

theorem move_at_speed_zero_counterexample:
  "FindDog still_joined (player_dog_id player_A) = Some 0 \<and>
   map_option dog_speed (FindMap still_joined (player_map_id player_A)) = Some 0 \<and>
   player_metadata still_joined 0 =
     Some \<lparr>join_time = 0, idle_start_time = None, is_retired = False\<rparr> \<and>
   fst (SetPlayerAction player_A ''L'' 7 still_joined) = True \<and>
   player_metadata (snd (SetPlayerAction player_A ''L'' 7 still_joined)) 0 =
     Some \<lparr>join_time = 0, idle_start_time = Some 7, is_retired = False\<rparr>"
  by (simp add: still_joined_def still_app_def scenario_defs op_defs)

subsection \<open>The play time of a record\<close>

lemma static_cast_int64_bounds:
  assumes "\<bar>y\<bar> < 2 ^ 63"
  shows "\<exists>z. static_cast_int64 y = Some z \<and> z = (if 0 \<le> y then \<lfloor>y\<rfloor> else \<lceil>y\<rceil>) \<and>
             \<bar>real_of_int z\<bar> \<le> \<bar>y\<bar> \<and> \<bar>y\<bar> < \<bar>real_of_int z\<bar> + 1"
proof -
  let ?z = "if 0 \<le> y then \<lfloor>y\<rfloor> else \<lceil>y\<rceil>"
  have b: "\<bar>real_of_int ?z\<bar> \<le> \<bar>y\<bar> \<and> \<bar>y\<bar> < \<bar>real_of_int ?z\<bar> + 1"
  proof (cases "0 \<le> y")
    case True
    then have "0 \<le> \<lfloor>y\<rfloor>" by simp
    moreover have "real_of_int \<lfloor>y\<rfloor> \<le> y" "y < real_of_int \<lfloor>y\<rfloor> + 1" by linarith+
    ultimately show ?thesis using True by simp
  next
    case False
    then have "\<lceil>y\<rceil> \<le> 0" by simp
    moreover have "y \<le> real_of_int \<lceil>y\<rceil>" "real_of_int \<lceil>y\<rceil> < y + 1" by linarith+
    ultimately show ?thesis using False by simp
  qed
  then have b1: "\<bar>real_of_int ?z\<bar> \<le> \<bar>y\<bar>" by simp
  from b1 assms have "\<bar>real_of_int ?z\<bar> < 2 ^ 63" by linarith
  then have "real_of_int \<bar>?z\<bar> < real_of_int (2 ^ 63)" by simp
  then have "\<bar>?z\<bar> < 2 ^ 63" by (simp only: of_int_less_iff)
  then have rng: "- (2 ^ 63) \<le> ?z \<and> ?z < 2 ^ 63" by linarith
  then have "static_cast_int64 y = Some ?z" by (simp add: static_cast_int64_def Let_def)
  with b show ?thesis by blast
qed

text \<open>
  Claim C8, as amended. \<^verbatim>\<open>AddRetiredPlayer\<close> appends one row whose play-time
  column is the product of the seconds value and 1000.0 as a double, that is, the exact
  product rounded to double precision, with the fraction dropped (truncated toward zero,
  not rounded to the nearest integer), for every play time whose product fits 64 bits.
  The product as a double differs from the exact product by at most one part in two to
  the power 53, and not at all when the exact product is an integer of up to 53 bits.
\<close>

theorem AddRetiredPlayer_truncates:
  assumes "\<bar>to_double (play_time_seconds * 1000)\<bar> < 2 ^ 63"
  shows "\<exists>ms. AddRetiredPlayer name sc play_time_seconds table =
           Some (table @ [\<lparr>row_name = name, row_score = sc, row_play_time_ms = ms\<rparr>]) \<and>
         ms = (if 0 \<le> play_time_seconds then \<lfloor>to_double (play_time_seconds * 1000)\<rfloor>
               else \<lceil>to_double (play_time_seconds * 1000)\<rceil>) \<and>
         \<bar>real_of_int ms\<bar> \<le> \<bar>to_double (play_time_seconds * 1000)\<bar> \<and>
         \<bar>to_double (play_time_seconds * 1000)\<bar> < \<bar>real_of_int ms\<bar> + 1 \<and>
         (pow2 (- 1022) \<le> \<bar>play_time_seconds * 1000\<bar> \<longrightarrow>
            \<bar>to_double (play_time_seconds * 1000) - play_time_seconds * 1000\<bar> \<le>
              \<bar>play_time_seconds * 1000\<bar> / 2 ^ 53) \<and>
         (\<forall>n. play_time_seconds * 1000 = real_of_int n \<and> \<bar>n\<bar> < 2 ^ 53 \<longrightarrow> ms = n)"
proof -
  let ?y = "play_time_seconds * 1000"
  let ?d = "to_double ?y"
  from static_cast_int64_bounds[OF assms] obtain z where
    z: "static_cast_int64 ?d = Some z" "z = (if 0 \<le> ?d then \<lfloor>?d\<rfloor> else \<lceil>?d\<rceil>)"
      "\<bar>real_of_int z\<bar> \<le> \<bar>?d\<bar>" "\<bar>?d\<bar> < \<bar>real_of_int z\<bar> + 1"
    by blast
  have row: "AddRetiredPlayer name sc play_time_seconds table =
      Some (table @ [\<lparr>row_name = name, row_score = sc, row_play_time_ms = z\<rparr>])"
    using z(1) by (simp add: AddRetiredPlayer_def)
  have dir: "z = (if 0 \<le> play_time_seconds then \<lfloor>?d\<rfloor> else \<lceil>?d\<rceil>)"
  proof (cases "0 \<le> play_time_seconds")
    case True
    then have "0 \<le> ?y" by simp
    then have "0 \<le> ?d" by (rule to_double_sign(1))
    with z(2) True show ?thesis by simp
  next
    case False
    then have "?y \<le> 0" by (simp add: mult_le_0_iff)
    then have le: "?d \<le> 0" by (rule to_double_sign(2))
    show ?thesis
    proof (cases "?d = 0")
      case True
      with z(2) False show ?thesis by simp
    next
      case nz: False
      with le have "\<not> 0 \<le> ?d" by simp
      with z(2) False show ?thesis by simp
    qed
  qed
  have err: "\<bar>?d - ?y\<bar> \<le> \<bar>?y\<bar> / 2 ^ 53" if "pow2 (- 1022) \<le> \<bar>?y\<bar>"
    using that by (rule to_double_error)
  have exact: "z = n" if "?y = real_of_int n \<and> \<bar>n\<bar> < 2 ^ 53" for n
  proof -
    from that to_double_of_int[of n] have "?d = real_of_int n" by simp
    with z(2) show ?thesis by simp
  qed
  from row dir z(3,4) err exact show ?thesis by blast
qed

text \<open>
  Three play times: 1/512 s, whose 1.953125 ms are stored as 1; the double nearest to
  0.009, for which the product as a double is 9 although the exact product is below 9;
  and 61 s, stored as 61000.
\<close>

theorem AddRetiredPlayer_truncates_witness:
  "\<bar>to_double ((1 / 512) * 1000)\<bar> < 2 ^ 63 \<and>
   AddRetiredPlayer ''A'' 10 (1 / 512) [] =
     Some [\<lparr>row_name = ''A'', row_score = 10, row_play_time_ms = 1\<rparr>] \<and>
   \<bar>to_double (5188146770730811 / 2 ^ 59 * 1000)\<bar> < 2 ^ 63 \<and>
   \<lfloor>5188146770730811 / 2 ^ 59 * 1000 :: real\<rfloor> = 8 \<and>
   AddRetiredPlayer ''A'' 10 (5188146770730811 / 2 ^ 59) [] =
     Some [\<lparr>row_name = ''A'', row_score = 10, row_play_time_ms = 9\<rparr>] \<and>
   \<bar>to_double (61 * 1000)\<bar> < 2 ^ 63 \<and>
   AddRetiredPlayer ''A'' 10 61 [] =
     Some [\<lparr>row_name = ''A'', row_score = 10, row_play_time_ms = 61000\<rparr>]"
proof -
  have d1: "to_double ((1 / 512) * 1000) = 125 / 64"
    by (simp add: to_double_in_binade[of 0] pow2_def round_to_even_def)
  have d2: "to_double (5188146770730811 / 2 ^ 59 * 1000) = 9"
    by (simp add: to_double_in_binade[of 3] pow2_def round_to_even_def Let_def)
  have d3: "to_double (61 * 1000) = 61000"
    by (simp add: to_double_numeral)
  have f2: "\<lfloor>5188146770730811 / 2 ^ 59 * 1000 :: real\<rfloor> = 8"
    by simp
  have h1: "\<bar>to_double ((1 / 512) * 1000)\<bar> < 2 ^ 63" by (simp only: d1) simp
  have h2: "\<bar>to_double (5188146770730811 / 2 ^ 59 * 1000)\<bar> < 2 ^ 63" by (simp only: d2) simp
  have h3: "\<bar>to_double (61 * 1000)\<bar> < 2 ^ 63" by (simp only: d3) simp
  from AddRetiredPlayer_truncates[OF h1, of "''A''" 10 "[]", unfolded d1]
  have r1: "AddRetiredPlayer ''A'' 10 (1 / 512) [] =
     Some [\<lparr>row_name = ''A'', row_score = 10, row_play_time_ms = 1\<rparr>]"
    by simp
  from AddRetiredPlayer_truncates[OF h2, of "''A''" 10 "[]", unfolded d2]
  have r2: "AddRetiredPlayer ''A'' 10 (5188146770730811 / 2 ^ 59) [] =
     Some [\<lparr>row_name = ''A'', row_score = 10, row_play_time_ms = 9\<rparr>]"
    by simp
  from AddRetiredPlayer_truncates[OF h3, of "''A''" 10 "[]", unfolded d3]
  have r3: "AddRetiredPlayer ''A'' 10 61 [] =
     Some [\<lparr>row_name = ''A'', row_score = 10, row_play_time_ms = 61000\<rparr>]"
    by simp
  from h1 h2 h3 f2 r1 r2 r3 show ?thesis by blast
qed

text \<open>
  Claim C8 as stated rounds to the nearest integer. A play time of 1/512 s is 1.953125 ms,
  exactly so as a double: the row stores 1, the nearest integer is 2. And a player retired
  1001 ms after joining is reported with the double nearest to 1.001 s, whose product with
  1000.0 is a double just below 1001: the row stores 1000, the nearest integer is 1001.
\<close>

theorem play_time_not_rounded_counterexample:
  "AddRetiredPlayer ''A'' 10 (1 / 512) [] =
     Some [\<lparr>row_name = ''A'', row_score = 10, row_play_time_ms = 1\<rparr>] \<and>
   round ((1 / 512 :: real) * 1000) = 2 \<and>
   retired_records (RetirePlayer 0 1001000000 scenario_joined) =
     [(''A'', 0, 2254051613498933 / 2 ^ 51)] \<and>
   AddRetiredPlayer ''A'' 0 (2254051613498933 / 2 ^ 51) [] =
     Some [\<lparr>row_name = ''A'', row_score = 0, row_play_time_ms = 1000\<rparr>] \<and>
   round (2254051613498933 / 2 ^ 51 * 1000 :: real) = 1001"
proof -
  have d1: "to_double ((1 / 512) * 1000) = 125 / 64"
    by (simp add: to_double_in_binade[of 0] pow2_def round_to_even_def)
  have d2: "to_double (1001 / 1000) = 2254051613498933 / 2 ^ 51"
    by (simp add: to_double_in_binade[of 0] pow2_def round_to_even_def Let_def)
  have d3: "to_double (2254051613498933 / 2 ^ 51 * 1000) = 8804889115230207 / 2 ^ 43"
    by (simp add: to_double_in_binade[of 9] pow2_def round_to_even_def Let_def)
  have a: "AddRetiredPlayer ''A'' 10 (1 / 512) [] =
     Some [\<lparr>row_name = ''A'', row_score = 10, row_play_time_ms = 1\<rparr>]"
    by (simp only: AddRetiredPlayer_def d1) (simp add: static_cast_int64_def)
  have b: "round ((1 / 512 :: real) * 1000) = 2"
    by (simp add: round_def)
  have c: "retired_records (RetirePlayer 0 1001000000 scenario_joined) =
     [(''A'', 0, 2254051613498933 / 2 ^ 51)]"
    using d2 by (simp add: scenario_defs op_defs)
  have d: "AddRetiredPlayer ''A'' 0 (2254051613498933 / 2 ^ 51) [] =
     Some [\<lparr>row_name = ''A'', row_score = 0, row_play_time_ms = 1000\<rparr>]"
    by (simp only: AddRetiredPlayer_def d3) (simp add: static_cast_int64_def)
  have e: "round (2254051613498933 / 2 ^ 51 * 1000 :: real) = 1001"
    by (simp add: round_def)
  from a b c d e show ?thesis by blast
qed

subsection \<open>Where the code departs from its specification\<close>

lemmas two_defs = two_A_retired_def two_B_running_def two_first_tick_def two_joined_def
  player_B_def road_things

text \<open>
  Claim C3 does not hold of \<^verbatim>\<open>FindCollisionTime\<close>. A dog that starts a move
  from (9.9,10) to (10.9,10) at distance 0.1 from the loot item at (10,10), within the
  radius 0.3, gets no collision, although the same dog standing still gets one at
  parameter 0. And for a move from (8.67,10) to (9.67,10) towards an office at (10,10)
  with radius 0.55 the function reports parameter 0.89, while the dog is at distance 0.55
  from the office already at parameter 0.78, at (9.45,10).
\<close>

theorem FindCollisionTime_misses_start_inside:
  "hypot (10 - 99 / 10) (10 - 10) \<le> 3 / 10 \<and>
   FindCollisionTime \<lparr>pos_x = 99 / 10, pos_y = 10\<rparr> \<lparr>pos_x = 99 / 10, pos_y = 10\<rparr> plaza
     (3 / 10) = Some 0 \<and>
   FindCollisionTime \<lparr>pos_x = 99 / 10, pos_y = 10\<rparr> \<lparr>pos_x = 109 / 10, pos_y = 10\<rparr> plaza
     (3 / 10) = None \<and>
   hypot (10 - (867 / 100 + 78 / 100 * (967 / 100 - 867 / 100))) (10 - 10) = 55 / 100 \<and>
   FindCollisionTime \<lparr>pos_x = 867 / 100, pos_y = 10\<rparr> \<lparr>pos_x = 967 / 100, pos_y = 10\<rparr> plaza
     (55 / 100) = Some (89 / 100)"
proof -
  have s: "sqrt (121 / 625) = 11 / 25"
    by (rule real_sqrt_unique) (simp_all add: power2_eq_square)
  show ?thesis
    by (simp add: FindCollisionTime_def Let_def eval_facts s plaza_def)
qed

text \<open>
  Claim C1 does not hold of \<^verbatim>\<open>RetirePlayer\<close>. On a freshly loaded map A and B
  join, both stand through a tick, B starts to run, and the tick sixty seconds later
  retires A. The players and dogs
  sequences then hold B at position 0, but the three indices still send B's token, player
  id and dog id to position 1: the token no longer resolves, B's dog is not found, and B,
  who is not retired, can neither list players nor act. Had a third player C joined
  before A retires, B's token would resolve to position 1, where C then is, and C's token
  to nothing. With a fourth player D, retiring B after A goes through the stale indices:
  the record carries C's name, C's token and the index entry of D's dog are erased, D's
  dog is removed, and B, now marked retired, keeps its token entry and its dog.
\<close>

theorem stale_indices_after_retirement:
  "map player_name (players (game two_joined)) = [''A'', ''B''] \<and>
   FindPlayerByToken two_joined ''tokenB'' = Some 1 \<and>
   retired_records two_A_retired = [(''A'', 0, 61)] \<and>
   players (game two_A_retired) = [player_B] \<and>
   map dog_ident (dogs (game two_A_retired)) = [1] \<and>
   player_metadata two_A_retired 1 =
     Some \<lparr>join_time = 0, idle_start_time = None, is_retired = False\<rparr> \<and>
   token_to_player_index (game two_A_retired) ''tokenB'' = Some 1 \<and>
   player_id_to_index (game two_A_retired) 1 = Some 1 \<and>
   dog_id_to_index (game two_A_retired) 1 = Some 1 \<and>
   FindPlayerByToken two_A_retired ''tokenB'' = None \<and>
   FindDog two_A_retired 1 = None \<and>
   GetPlayers ''tokenB'' two_A_retired = [] \<and>
   fst (SetPlayerAction player_B [] 62000000000 two_A_retired) = False \<and>
   map player_name (players (game (RetirePlayer 0 61000000000 three_joined))) = [''B'', ''C''] \<and>
   FindPlayerByToken (RetirePlayer 0 61000000000 three_joined) ''tokenB'' = Some 1 \<and>
   FindPlayerByToken (RetirePlayer 0 61000000000 three_joined) ''tokenC'' = None \<and>
   map player_name (players (game four_B_retired)) = [''C'', ''D''] \<and>
   map dog_ident (dogs (game four_B_retired)) = [1, 2] \<and>
   map fst (retired_records four_B_retired) = [''A'', ''C''] \<and>
   map_option is_retired (player_metadata four_B_retired 1) = Some True \<and>
   token_to_player_index (game four_B_retired) ''tokenB'' = Some 1 \<and>
   token_to_player_index (game four_B_retired) ''tokenC'' = None \<and>
   dog_id_to_index (game four_B_retired) 1 = Some 1 \<and>
   dog_id_to_index (game four_B_retired) 3 = None"
proof -
  have two: "map player_name (players (game two_joined)) = [''A'', ''B'']"
    "FindPlayerByToken two_joined ''tokenB'' = Some 1"
    by (simp_all add: two_defs op_defs)
  have retired: "retired_records two_A_retired = [(''A'', 0, 61)]"
    "players (game two_A_retired) = [player_B]"
    "map dog_ident (dogs (game two_A_retired)) = [1]"
    "player_metadata two_A_retired 1 =
       Some \<lparr>join_time = 0, idle_start_time = None, is_retired = False\<rparr>"
    "token_to_player_index (game two_A_retired) ''tokenB'' = Some 1"
    "player_id_to_index (game two_A_retired) 1 = Some 1"
    "dog_id_to_index (game two_A_retired) 1 = Some 1"
    by (simp_all add: two_defs op_defs tick_defs eval_facts)
  have len: "length (dogs (game two_A_retired)) = 1"
    by (simp add: two_defs op_defs tick_defs eval_facts)
  from retired len have lost: "FindPlayerByToken two_A_retired ''tokenB'' = None"
    "FindDog two_A_retired 1 = None"
    "GetPlayers ''tokenB'' two_A_retired = []"
    "fst (SetPlayerAction player_B [] 62000000000 two_A_retired) = False"
    by (simp_all add: FindPlayerByToken_def FindDog_def GetPlayers_def SetPlayerAction_def
          player_B_def)
  have three: "map player_name (players (game (RetirePlayer 0 61000000000 three_joined))) =
      [''B'', ''C'']"
    "FindPlayerByToken (RetirePlayer 0 61000000000 three_joined) ''tokenB'' = Some 1"
    "FindPlayerByToken (RetirePlayer 0 61000000000 three_joined) ''tokenC'' = None"
    by (simp_all add: three_joined_def two_defs op_defs)
  have four: "map player_name (players (game four_B_retired)) = [''C'', ''D'']"
    "map dog_ident (dogs (game four_B_retired)) = [1, 2]"
    "map fst (retired_records four_B_retired) = [''A'', ''C'']"
    "map_option is_retired (player_metadata four_B_retired 1) = Some True"
    "token_to_player_index (game four_B_retired) ''tokenB'' = Some 1"
    "token_to_player_index (game four_B_retired) ''tokenC'' = None"
    "dog_id_to_index (game four_B_retired) 1 = Some 1"
    "dog_id_to_index (game four_B_retired) 3 = None"
    by (simp_all add: four_B_retired_def four_joined_def three_joined_def two_defs op_defs)
  from two retired lost three four show ?thesis by simp
qed

end
